theory Spec2Isabelle
  imports Complex_Main
begin

section \<open>Arrays, exceptions and the runtime\<close>

text \<open>
  A numpy or jax array is its shape together with its entries in row-major order.
  Entries are real numbers, that is, finite values computed without rounding: the
  rounding of the float32 arithmetic of the source is not part of this model, and its
  infinities and NaN appear only where the masking of the forces is evaluated on IEEE
  values.  An array met in the source always has as many entries as its shape says
  (\<open>wf_array\<close>).
\<close>

record ndarray =
  shape :: "nat list"
  elems :: "real list"

definition wf_array :: "ndarray \<Rightarrow> bool" where
  "wf_array a = (length (elems a) = prod_list (shape a))"

text \<open>The exceptions of the source, as values.  \<open>EngineError\<close> is any exception that
  the external engine throws; its text is what \<^verbatim>\<open>str(e)\<close> gives.  \<open>XlaRuntimeError\<close>
  is the error as which \<^verbatim>\<open>jax.pure_callback\<close> raises again an exception of its callback.\<close>

datatype exn =
    EngineError string
  | ZeroDivisionError
  | AssertionError
  | ValueError string
  | TypeError string
  | IndexError
  | XlaRuntimeError string

fun str :: "exn \<Rightarrow> string" where
  "str (EngineError m) = m"
| "str ZeroDivisionError = ''float division by zero''"
| "str AssertionError = ''''"
| "str (ValueError m) = m"
| "str (TypeError m) = m"
| "str IndexError = ''index out of bounds''"
| "str (XlaRuntimeError m) = m"

text \<open>
  What a call changes outside the objects it is given: the records written by
  \<^verbatim>\<open>logging.warning\<close>, and the number of buffers allocated so far.  The content of a
  buffer made by \<^verbatim>\<open>np.empty\<close> or \<^verbatim>\<open>np.empty_like\<close> is arbitrary; it is read
  from a parameter \<open>uninit\<close> that gives, for every allocation, its entries.
\<close>

record runtime =
  warnings :: "string list"
  allocations :: nat

definition np_empty :: "(nat \<Rightarrow> nat \<Rightarrow> real) \<Rightarrow> nat \<Rightarrow> runtime \<Rightarrow> real list \<times> runtime" where
  "np_empty uninit n rt =
     (map (uninit (allocations rt)) [0..<n], rt\<lparr>allocations := Suc (allocations rt)\<rparr>)"

definition np_empty_scalar :: "(nat \<Rightarrow> nat \<Rightarrow> real) \<Rightarrow> runtime \<Rightarrow> real \<times> runtime" where
  "np_empty_scalar uninit rt =
     (uninit (allocations rt) 0, rt\<lparr>allocations := Suc (allocations rt)\<rparr>)"

definition logging_warning :: "string \<Rightarrow> runtime \<Rightarrow> runtime" where
  "logging_warning m rt = rt\<lparr>warnings := warnings rt @ [m]\<rparr>"

text \<open>\<^verbatim>\<open>jnp.stack\<close> of a list of arrays along a new leading axis; it raises for no arrays and
  for arrays of different shapes.\<close>

definition stack :: "ndarray list \<Rightarrow> exn + ndarray" where
  "stack xs =
     (case xs of
        [] \<Rightarrow> Inl (ValueError ''Need at least one array to stack.'')
      | x # _ \<Rightarrow>
          if list_all (\<lambda>y. shape y = shape x) xs
          then Inr \<lparr>shape = length xs # shape x, elems = concat (map elems xs)\<rparr>
          else Inl (ValueError ''All input arrays must have the same shape.''))"

text \<open>Row \<open>i\<close> of an array whose rows have \<open>w\<close> entries each.\<close>

definition row :: "nat \<Rightarrow> nat \<Rightarrow> real list \<Rightarrow> real list" where
  "row w i xs = take w (drop (i * w) xs)"

text \<open>Entry-wise difference of two arrays of one shape.  Operands of different shapes,
  which \<^verbatim>\<open>jnp\<close> would broadcast or refuse, are outside the model and give the error.\<close>

definition subtract :: "ndarray \<Rightarrow> ndarray \<Rightarrow> exn + ndarray" where
  "subtract a b =
     (if shape a = shape b then Inr \<lparr>shape = shape a, elems = map2 (-) (elems a) (elems b)\<rparr>
      else Inl (ValueError ''shapes differ''))"

definition zeros :: "nat list \<Rightarrow> ndarray" where
  "zeros sh = \<lparr>shape = sh, elems = replicate (prod_list sh) 0\<rparr>"

definition full :: "nat list \<Rightarrow> real \<Rightarrow> ndarray" where
  "full sh v = \<lparr>shape = sh, elems = replicate (prod_list sh) v\<rparr>"

definition negate :: "ndarray \<Rightarrow> ndarray" where
  "negate a = a\<lparr>elems := map uminus (elems a)\<rparr>"

definition sign :: "ndarray \<Rightarrow> ndarray" where
  "sign a = a\<lparr>elems := map sgn (elems a)\<rparr>"

text \<open>\<^verbatim>\<open>a.shape[0]\<close> and \<^verbatim>\<open>a[0]\<close>; both raise for an array without dimensions, the second
  also for an empty leading axis.\<close>

definition shape0 :: "ndarray \<Rightarrow> exn + nat" where
  "shape0 a = (case shape a of [] \<Rightarrow> Inl IndexError | d # _ \<Rightarrow> Inr d)"

definition index0 :: "ndarray \<Rightarrow> exn + ndarray" where
  "index0 a =
     (case shape a of
        [] \<Rightarrow> Inl IndexError
      | d # ds \<Rightarrow>
          if d = 0 then Inl IndexError
          else Inr \<lparr>shape = ds, elems = take (prod_list ds) (elems a)\<rparr>)"

section \<open>The energy oracle: \<open>OpenMMEnergyModel\<close>\<close>

datatype ErrorHandling = RaiseException | LogWarning | Nothing

text \<open>
  \<open>WaterModel\<close> is declared outside the files at hand; the oracle reads four of its
  attributes, which are the fields here.
\<close>

record WaterModel =
  n_atoms :: nat
  n_molecules :: nat
  n_sites :: nat
  vs_mask :: ndarray

text \<open>
  The engine's context holds the periodic box vectors (a 3 by 3 matrix, row-major) and
  the positions last pushed into it.  The engine itself is a parameter: from a context it
  either fails before a potential energy is obtained, or gives the energy and then fails
  to give forces, or gives both, in its own units.
\<close>

record openmm_context =
  box_vectors :: "real list"
  positions :: "real list"

datatype engine_result =
    QueryFailed exn
  | ForcesFailed real exn
  | Evaluated real "real list"

type_synonym engine = "openmm_context \<Rightarrow> engine_result"

record OpenMMEnergyModel =
  kbT :: real
  model :: WaterModel
  context_handle :: openmm_context
  error_handling :: ErrorHandling

text \<open>\<^verbatim>\<open>jnp.diag(box)\<close>: the square matrix, row-major, with the vector on its diagonal.\<close>

definition diag :: "real list \<Rightarrow> real list" where
  "diag v = concat (map (\<lambda>i. map (\<lambda>j. if i = j then v ! i else 0) [0..<length v]) [0..<length v])"

text \<open>
  \<^verbatim>\<open>pos.reshape(-1, n_atoms, 3)\<close>: the leading dimension is inferred from the number of
  entries; numpy raises when the known dimensions do not divide it, and when their
  product is zero.
\<close>

definition reshape_batch :: "ndarray \<Rightarrow> nat \<Rightarrow> exn + ndarray" where
  "reshape_batch pos n =
     (if n * 3 = 0 \<or> length (elems pos) mod (n * 3) \<noteq> 0
      then Inl (ValueError ''cannot reshape array'')
      else Inr \<lparr>shape = [length (elems pos) div (n * 3), n, 3], elems = elems pos\<rparr>)"

text \<open>
  \<^verbatim>\<open>force * self.model.vs_mask\<close> stored into \<^verbatim>\<open>forces[i]\<close>, where the mask has shape
  \<open>(n, 3)\<close> and the force \<open>(k, 3)\<close>: entry by entry when \<open>k = n\<close>, the one row repeated when
  \<open>k = 1\<close>, and a \<^verbatim>\<open>ValueError\<close> of numpy's broadcasting otherwise.
\<close>

definition mask_force :: "real list \<Rightarrow> ndarray \<Rightarrow> nat \<Rightarrow> exn + real list" where
  "mask_force force msk n =
     (if length force = n * 3 then Inr (map2 (*) force (elems msk))
      else if length force = 3 then Inr (map2 (*) (concat (replicate n force)) (elems msk))
      else Inl (ValueError ''operands could not be broadcast together''))"

text \<open>The state of the loop over the batch: the context, the runtime and the two
  output buffers.\<close>

record loop_state =
  ctx :: openmm_context
  rt :: runtime
  energies_buf :: "real list"
  forces_buf :: "real list list"

text \<open>
  The \<^verbatim>\<open>try\<close> block of one sample: push the positions, query the engine, divide by
  \<open>kbT\<close>.  The energy is a Python float, so dividing it by a zero \<open>kbT\<close> raises.  The
  result is the pair \<open>(energy, force)\<close> as the \<^verbatim>\<open>finally\<close> clause finds it, and the
  exception caught, if any.
\<close>

definition try_block ::
  "engine \<Rightarrow> OpenMMEnergyModel \<Rightarrow> openmm_context \<Rightarrow> real \<Rightarrow> real list
     \<Rightarrow> (real \<times> real list) \<times> exn option" where
  "try_block eng self c energy force =
     (case eng c of
        QueryFailed e \<Rightarrow> ((energy, force), Some e)
      | ForcesFailed E e \<Rightarrow>
          if kbT self = 0 then ((energy, force), Some ZeroDivisionError)
          else ((E / kbT self, force), Some e)
      | Evaluated E F \<Rightarrow>
          if kbT self = 0 then ((energy, force), Some ZeroDivisionError)
          else ((E / kbT self, map (\<lambda>f. f / kbT self) F), None))"

text \<open>
  The \<^verbatim>\<open>except\<close> clause.  It dispatches on the policy of the oracle,
  \<^verbatim>\<open>self.error_handling\<close>.  The result is the runtime and the exception that is
  raised again, if any.
\<close>

definition except_clause :: "OpenMMEnergyModel \<Rightarrow> exn \<Rightarrow> runtime \<Rightarrow> runtime \<times> exn option" where
  "except_clause self e r =
     (case error_handling self of
        RaiseException \<Rightarrow> (r, Some e)
      | LogWarning \<Rightarrow> (logging_warning (str e) r, None)
      | Nothing \<Rightarrow> (r, None))"

text \<open>One iteration of the loop, for sample \<open>i\<close> with positions \<open>p\<close>.  The \<^verbatim>\<open>finally\<close>
  clause runs on every path; an exception of its own replaces the pending one.\<close>

definition sample_step ::
  "engine \<Rightarrow> (nat \<Rightarrow> nat \<Rightarrow> real) \<Rightarrow> OpenMMEnergyModel \<Rightarrow> nat \<Rightarrow> real list \<Rightarrow> loop_state
     \<Rightarrow> loop_state \<times> exn option" where
  "sample_step eng uninit self i p st =
     (let (e0, r1) = np_empty_scalar uninit (rt st);
          (f0, r2) = np_empty uninit (n_atoms (model self) * 3) r1;
          c = (ctx st)\<lparr>positions := p\<rparr>;
          ((energy, force), caught) = try_block eng self c e0 f0;
          (r3, pending) = (case caught of None \<Rightarrow> (r2, None) | Some e \<Rightarrow> except_clause self e r2)
      in case mask_force force (vs_mask (model self)) (n_atoms (model self)) of
           Inl ve \<Rightarrow> (st\<lparr>ctx := c, rt := r3, energies_buf := (energies_buf st)[i := energy]\<rparr>, Some ve)
         | Inr masked \<Rightarrow>
             (st\<lparr>ctx := c, rt := r3, energies_buf := (energies_buf st)[i := energy],
                 forces_buf := (forces_buf st)[i := masked]\<rparr>, pending))"

fun sample_loop ::
  "engine \<Rightarrow> (nat \<Rightarrow> nat \<Rightarrow> real) \<Rightarrow> OpenMMEnergyModel \<Rightarrow> ndarray \<Rightarrow> nat list \<Rightarrow> loop_state
     \<Rightarrow> loop_state \<times> exn option" where
  "sample_loop eng uninit self pos [] st = (st, None)"
| "sample_loop eng uninit self pos (i # is) st =
     (case sample_step eng uninit self i (row (n_atoms (model self) * 3) i (elems pos)) st of
        (st', Some e) \<Rightarrow> (st', Some e)
      | (st', None) \<Rightarrow> sample_loop eng uninit self pos is st')"

text \<open>
  \<^verbatim>\<open>compute_energies_and_forces(self, pos, box, error_handling)\<close>.  The call returns the
  oracle (its context changed), the runtime, and either the exception that leaves the
  call or the arrays \<open>(energies, forces)\<close>.
\<close>

definition compute_energies_and_forces ::
  "engine \<Rightarrow> (nat \<Rightarrow> nat \<Rightarrow> real) \<Rightarrow> OpenMMEnergyModel \<Rightarrow> ndarray \<Rightarrow> ndarray option
     \<Rightarrow> ErrorHandling option \<Rightarrow> runtime
     \<Rightarrow> (OpenMMEnergyModel \<times> runtime) \<times> (exn + ndarray \<times> ndarray)" where
  "compute_energies_and_forces eng uninit self pos box eh r =
     (let n = n_atoms (model self) in
      case reshape_batch pos n of
        Inl e \<Rightarrow> ((self, r), Inl e)
      | Inr pos' \<Rightarrow>
         (let b = hd (shape pos');
              (energies0, r1) = np_empty uninit b r;
              (forces0, r2) = np_empty uninit (b * n * 3) r1;
              error_handling' = (case eh of None \<Rightarrow> error_handling self | Some h \<Rightarrow> h)
          in if (case box of None \<Rightarrow> False | Some bx \<Rightarrow> shape bx \<noteq> [3, 3])
             then ((self, r2), Inl AssertionError)
             else
              (let c = (case box of None \<Rightarrow> context_handle self
                        | Some bx \<Rightarrow> (context_handle self)\<lparr>box_vectors := elems bx\<rparr>);
                   self1 = self\<lparr>context_handle := c\<rparr>
               in if shape (vs_mask (model self)) \<noteq> [n, 3] then ((self1, r2), Inl AssertionError)
                  else
                   (case sample_loop eng uninit self1 pos' [0..<b]
                           \<lparr>ctx = c, rt = r2, energies_buf = energies0,
                            forces_buf = map (\<lambda>i. row (n * 3) i forces0) [0..<b]\<rparr> of
                      (st, Some e) \<Rightarrow> ((self1\<lparr>context_handle := ctx st\<rparr>, rt st), Inl e)
                    | (st, None) \<Rightarrow>
                        ((self1\<lparr>context_handle := ctx st\<rparr>, rt st),
                         Inr (\<lparr>shape = [b], elems = energies_buf st\<rparr>,
                              \<lparr>shape = [b, n, 3], elems = concat (forces_buf st)\<rparr>))))))"

section \<open>The masking of the forces on IEEE values\<close>

text \<open>
  The arrays of the source hold float32 values, among them the two infinities and NaN,
  which the engine may report and a fresh buffer may hold.  On these the product is the
  IEEE one: NaN with anything is NaN, and an infinity times zero is NaN.  Rounding and
  overflow of finite values are left out here too.
\<close>

datatype ieee = Finite real | PosInf | NegInf | NaN

fun ieee_times :: "ieee \<Rightarrow> ieee \<Rightarrow> ieee" where
  "ieee_times NaN y = NaN"
| "ieee_times x NaN = NaN"
| "ieee_times (Finite a) (Finite b) = Finite (a * b)"
| "ieee_times (Finite a) PosInf = (if a = 0 then NaN else if 0 < a then PosInf else NegInf)"
| "ieee_times (Finite a) NegInf = (if a = 0 then NaN else if 0 < a then NegInf else PosInf)"
| "ieee_times PosInf (Finite b) = (if b = 0 then NaN else if 0 < b then PosInf else NegInf)"
| "ieee_times NegInf (Finite b) = (if b = 0 then NaN else if 0 < b then NegInf else PosInf)"
| "ieee_times PosInf PosInf = PosInf"
| "ieee_times PosInf NegInf = NegInf"
| "ieee_times NegInf PosInf = NegInf"
| "ieee_times NegInf NegInf = PosInf"

text \<open>Division of a value by \<open>kbT\<close>, a finite number; numpy divides by zero without an
  exception.\<close>

fun ieee_divide_by :: "ieee \<Rightarrow> real \<Rightarrow> ieee" where
  "ieee_divide_by NaN k = NaN"
| "ieee_divide_by (Finite a) k =
     (if k = 0 then (if a = 0 then NaN else if 0 < a then PosInf else NegInf)
      else Finite (a / k))"
| "ieee_divide_by PosInf k = (if k < 0 then NegInf else PosInf)"
| "ieee_divide_by NegInf k = (if k < 0 then PosInf else NegInf)"

text \<open>
  \<^verbatim>\<open>force * self.model.vs_mask\<close> stored into \<^verbatim>\<open>forces[i]\<close>, as \<open>mask_force\<close> above but
  on IEEE values, and the row that the \<^verbatim>\<open>finally\<close> clause stores for a sample whose
  engine forces are \<open>raw\<close>: the forces divided by \<open>kbT\<close>, then multiplied by the mask.
\<close>

definition mask_force_ieee :: "ieee list \<Rightarrow> ieee list \<Rightarrow> nat \<Rightarrow> exn + ieee list" where
  "mask_force_ieee force msk n =
     (if length force = n * 3 then Inr (map2 ieee_times force msk)
      else if length force = 3 then Inr (map2 ieee_times (concat (replicate n force)) msk)
      else Inl (ValueError ''operands could not be broadcast together''))"

definition stored_forces_ieee :: "ieee list \<Rightarrow> real \<Rightarrow> ieee list \<Rightarrow> nat \<Rightarrow> exn + ieee list" where
  "stored_forces_ieee raw k msk n = mask_force_ieee (map (\<lambda>f. ieee_divide_by f k) raw) msk n"

section \<open>The differentiable bridge: \<open>wrap_openmm_model\<close>\<close>

text \<open>\<^verbatim>\<open>jnp.expand_dims(pos, axis=0)\<close> and \<^verbatim>\<open>jnp.squeeze(a, axis=0)\<close>; the latter raises
  when the leading dimension is not one.\<close>

definition expand_dims :: "ndarray \<Rightarrow> ndarray" where
  "expand_dims a = a\<lparr>shape := 1 # shape a\<rparr>"

definition squeeze :: "ndarray \<Rightarrow> exn + ndarray" where
  "squeeze a =
     (case shape a of
        [] \<Rightarrow> Inl (ValueError ''cannot select an axis to squeeze out'')
      | d # ds \<Rightarrow>
          if d = 1 then Inr (a\<lparr>shape := ds\<rparr>)
          else Inl (ValueError ''cannot select an axis to squeeze out''))"

text \<open>\<^verbatim>\<open>pos.reshape(pos.shape[0], -1, 3)\<close>, for an array of at least one dimension: the
  middle dimension is inferred, and \<^verbatim>\<open>jnp\<close> raises a \<^verbatim>\<open>TypeError\<close> when the other two do
  not divide the number of entries or have product zero, as for an empty batch.\<close>

definition reshape_flat :: "ndarray \<Rightarrow> exn + ndarray" where
  "reshape_flat pos =
     (let b = hd (shape pos) in
      if b * 3 = 0 \<or> length (elems pos) mod (b * 3) \<noteq> 0
      then Inl (TypeError ''cannot reshape array'')
      else Inr \<lparr>shape = [b, length (elems pos) div (b * 3), 3], elems = elems pos\<rparr>)"

text \<open>
  \<^verbatim>\<open>compute_energy_and_forces(pos, box, has_batch_dim)\<close> of \<^verbatim>\<open>wrap_openmm_model(model)\<close>.
  \<^verbatim>\<open>jax.pure_callback\<close> runs the oracle on the flattened positions, with no policy
  argument, and refuses results whose shapes are not the announced ones.  An exception
  of the oracle leaves the bridge as an \<^verbatim>\<open>XlaRuntimeError\<close> that carries its text.
\<close>

definition compute_energy_and_forces ::
  "engine \<Rightarrow> (nat \<Rightarrow> nat \<Rightarrow> real) \<Rightarrow> OpenMMEnergyModel \<Rightarrow> ndarray \<Rightarrow> ndarray option \<Rightarrow> bool
     \<Rightarrow> runtime \<Rightarrow> (OpenMMEnergyModel \<times> runtime) \<times> (exn + ndarray \<times> ndarray)" where
  "compute_energy_and_forces eng uninit mdl pos box has_batch_dim r =
     (if (case box of None \<Rightarrow> False | Some b \<Rightarrow> shape b \<noteq> [3]) then ((mdl, r), Inl AssertionError)
      else
       (let box' = map_option (\<lambda>b. \<lparr>shape = [3, 3], elems = diag (elems b)\<rparr>) box;
            dims = [n_molecules (model mdl), n_sites (model mdl), 3]
        in if (if \<not> has_batch_dim then shape pos \<noteq> dims else tl (shape pos) \<noteq> dims)
           then ((mdl, r), Inl AssertionError)
           else
            (let pos1 = (if \<not> has_batch_dim then expand_dims pos else pos) in
             case reshape_flat pos1 of
               Inl e \<Rightarrow> ((mdl, r), Inl e)
             | Inr pos_flat \<Rightarrow>
                (case compute_energies_and_forces eng uninit mdl pos_flat box' None r of
                   (s, Inl e) \<Rightarrow> (s, Inl (XlaRuntimeError (str e)))
                 | (s, Inr (energies, forces_flat)) \<Rightarrow>
                     if shape energies \<noteq> take 1 (shape pos_flat) \<or> shape forces_flat \<noteq> shape pos_flat
                     then (s, Inl (ValueError ''pure_callback: incorrect output shape''))
                     else
                      (let forces = forces_flat\<lparr>shape := shape pos1\<rparr> in
                       if \<not> has_batch_dim then
                         (case (squeeze energies, squeeze forces) of
                            (Inr e1, Inr f1) \<Rightarrow> (s, Inr (e1, f1))
                          | (Inl e, _) \<Rightarrow> (s, Inl e)
                          | (_, Inl e) \<Rightarrow> (s, Inl e))
                       else (s, Inr (energies, forces)))))))"

text \<open>The forward rule keeps the force as residual; the backward rule scales it by the
  negated cotangent \<open>g\<close> of the energy, a scalar for an energy without batch dimension.\<close>

definition eval_fwd ::
  "engine \<Rightarrow> (nat \<Rightarrow> nat \<Rightarrow> real) \<Rightarrow> OpenMMEnergyModel \<Rightarrow> ndarray \<Rightarrow> ndarray option \<Rightarrow> bool
     \<Rightarrow> runtime \<Rightarrow> (OpenMMEnergyModel \<times> runtime) \<times> (exn + ndarray \<times> ndarray)" where
  "eval_fwd eng uninit mdl pos box has_batch_dim r =
     (case compute_energy_and_forces eng uninit mdl pos box has_batch_dim r of
        (s, Inl e) \<Rightarrow> (s, Inl e)
      | (s, Inr (energy, force)) \<Rightarrow> (s, Inr (energy, force)))"

definition eval_bwd :: "ndarray option \<Rightarrow> bool \<Rightarrow> ndarray \<Rightarrow> real \<Rightarrow> ndarray" where
  "eval_bwd box has_batch_dim res g =
     (let force = res in force\<lparr>elems := map (\<lambda>f. - g * f) (elems force)\<rparr>)"

text \<open>The function \<^verbatim>\<open>eval\<close> itself: the energy of the forward rule.\<close>

definition eval ::
  "engine \<Rightarrow> (nat \<Rightarrow> nat \<Rightarrow> real) \<Rightarrow> OpenMMEnergyModel \<Rightarrow> ndarray \<Rightarrow> ndarray option \<Rightarrow> bool
     \<Rightarrow> runtime \<Rightarrow> (OpenMMEnergyModel \<times> runtime) \<times> (exn + ndarray)" where
  "eval eng uninit mdl pos box has_batch_dim r =
     (case eval_fwd eng uninit mdl pos box has_batch_dim r of
        (s, Inl e) \<Rightarrow> (s, Inl e)
      | (s, Inr (energy, force)) \<Rightarrow> (s, Inr energy))"

section \<open>The cutoff potential: \<open>cutoff_potential\<close>\<close>

text \<open>
  The functions that \<^verbatim>\<open>cutoff_potential\<close> defines inside itself are \<open>approximate_potential\<close>,
  \<open>cutoff_eval_fwd\<close> and \<open>cutoff_eval_bwd\<close> here; the prefix tells the last two from the
  rules of the bridge.
\<close>

definition sum_squares :: "real list \<Rightarrow> real" where
  "sum_squares xs = sum_list (map (\<lambda>x. x\<^sup>2) xs)"

text \<open>
  \<^verbatim>\<open>jax.value_and_grad(approximate_potential)(inp)\<close>: the surrogate
  \<open>0.5 * sum((inp - reference)^2)\<close> and its gradient \<open>inp - reference\<close>.
\<close>

definition approximate_potential :: "ndarray \<Rightarrow> ndarray \<Rightarrow> exn + real \<times> ndarray" where
  "approximate_potential reference inp =
     (case subtract inp reference of
        Inl e \<Rightarrow> Inl e
      | Inr d \<Rightarrow> Inr (0.5 * sum_squares (elems d), d))"

text \<open>
  The body of \<^verbatim>\<open>eval_fwd\<close> once \<^verbatim>\<open>jax.value_and_grad(potential)(inp)\<close> has given
  \<open>(original, grad)\<close>.  Both norms are taken with \<open>1e-12\<close> added under the root, and the
  comparison with the threshold uses the norm so computed.
\<close>

definition cutoff_blend ::
  "ndarray \<Rightarrow> real \<Rightarrow> ndarray \<Rightarrow> real \<Rightarrow> ndarray \<Rightarrow> exn + real \<times> ndarray" where
  "cutoff_blend reference threshold inp original grad =
     (let gnorm = sqrt (1 / 10 ^ 12 + sum_squares (elems grad)) in
      case approximate_potential reference inp of
        Inl e \<Rightarrow> Inl e
      | Inr (approx, grad_approx) \<Rightarrow>
          (let gnorm_approx = sqrt (1 / 10 ^ 12 + sum_squares (elems grad_approx));
               grad_approx' = grad_approx\<lparr>elems :=
                  map (\<lambda>x. x / gnorm_approx * threshold) (elems grad_approx)\<rparr>;
               out = (if gnorm > threshold then approx else original);
               grad' = (if gnorm > threshold then grad_approx' else grad)
           in Inr (out, grad')))"

text \<open>
  The wrapped potential is any differentiable function; it is given by what
  \<^verbatim>\<open>jax.value_and_grad\<close> makes of it: from an input and a state, the new state and either
  an exception or the value and the gradient.
\<close>

definition cutoff_eval_fwd ::
  "(ndarray \<Rightarrow> 's \<Rightarrow> 's \<times> (exn + real \<times> ndarray)) \<Rightarrow> ndarray \<Rightarrow> real \<Rightarrow> ndarray \<Rightarrow> 's
     \<Rightarrow> 's \<times> (exn + real \<times> ndarray)" where
  "cutoff_eval_fwd potential reference threshold inp s =
     (case potential inp s of
        (s', Inl e) \<Rightarrow> (s', Inl e)
      | (s', Inr (original, grad)) \<Rightarrow> (s', cutoff_blend reference threshold inp original grad))"

definition cutoff_eval_bwd :: "ndarray \<Rightarrow> real \<Rightarrow> ndarray" where
  "cutoff_eval_bwd g_inp g_out = g_inp\<lparr>elems := map (\<lambda>x. g_out * x) (elems g_inp)\<rparr>"

text \<open>Value and gradient of the function that \<^verbatim>\<open>cutoff_potential\<close> returns: the forward
  rule, then the backward rule on its residual with cotangent one.\<close>

definition cutoff_value_and_grad ::
  "(ndarray \<Rightarrow> 's \<Rightarrow> 's \<times> (exn + real \<times> ndarray)) \<Rightarrow> ndarray \<Rightarrow> real \<Rightarrow> ndarray \<Rightarrow> 's
     \<Rightarrow> 's \<times> (exn + real \<times> ndarray)" where
  "cutoff_value_and_grad potential reference threshold inp s =
     (case cutoff_eval_fwd potential reference threshold inp s of
        (s', Inl e) \<Rightarrow> (s', Inl e)
      | (s', Inr (out, res)) \<Rightarrow> (s', Inr (out, cutoff_eval_bwd res 1)))"

section \<open>The base density: \<open>BaseDensity\<close>\<close>

text \<open>\<^verbatim>\<open>SimulationBox\<close>; its fields are \<^verbatim>\<open>max\<close> and \<^verbatim>\<open>min\<close>, the latter \<^verbatim>\<open>jnp.zeros(3)\<close>
  when the constructor is given one argument.\<close>

record SimulationBox =
  box_max :: ndarray
  box_min :: ndarray

definition new_SimulationBox :: "ndarray \<Rightarrow> SimulationBox" where
  "new_SimulationBox mx = \<lparr>box_max = mx, box_min = zeros [3]\<rparr>"

definition size_box :: "SimulationBox \<Rightarrow> exn + ndarray" where
  "size_box b = subtract (box_max b) (box_min b)"

text \<open>\<^verbatim>\<open>State\<close> is declared outside the files at hand; \<^verbatim>\<open>BaseDensity.sample\<close> builds it from
  these five fields, in this order.\<close>

record State =
  s_rot :: ndarray
  s_pos :: ndarray
  s_ics :: "ndarray \<times> ndarray \<times> ndarray"
  s_aux :: ndarray
  s_box :: SimulationBox

text \<open>
  The probability library and the random number generator are parameters.  A
  distribution is a value of a type \<open>'d\<close>; \<open>log_prob\<close> gives the entries of the array of
  log-densities, \<open>sample_from\<close> a draw for a key, \<open>random_normal\<close> is
  \<^verbatim>\<open>jax.random.normal\<close>, and \<open>key_chain k i\<close> the \<open>i\<close>-th key of \<^verbatim>\<open>key_chain(k)\<close>.
\<close>

record ('d, 'k) library =
  log_prob :: "'d \<Rightarrow> ndarray \<Rightarrow> real list"
  sample_from :: "'d \<Rightarrow> 'k \<Rightarrow> ndarray"
  random_normal :: "'k \<Rightarrow> nat list \<Rightarrow> ndarray"
  key_chain :: "'k \<Rightarrow> nat \<Rightarrow> 'k"

record 'd BaseDensity =
  base_box :: SimulationBox
  rot_model :: 'd
  pos_model :: 'd
  base_aux_model :: 'd

definition vector :: "real list \<Rightarrow> ndarray" where
  "vector xs = \<lparr>shape = [length xs], elems = xs\<rparr>"

text \<open>\<^verbatim>\<open>jax.nn.logsumexp(a, axis=0)\<close>: for every position of a row, the logarithm of the sum
  of the exponentials down the leading axis, computed after subtracting the maximum.\<close>

definition logsumexp :: "ndarray \<Rightarrow> ndarray" where
  "logsumexp a =
     (let w = prod_list (tl (shape a));
          rows = map (\<lambda>i. row w i (elems a)) [0..<hd (shape a)]
      in \<lparr>shape = tl (shape a),
          elems = map (\<lambda>j. let col = map (\<lambda>r. r ! j) rows;
                              amax = fold max col (hd col)
                          in ln (sum_list (map (\<lambda>v. exp (v - amax)) col)) + amax) [0..<w]\<rparr>)"

text \<open>
  \<^verbatim>\<open>BaseDensity.potential\<close>.  The log-densities of the rotations and of their negations
  are those of one distribution at two arrays of one shape; they are stacked as vectors,
  which raises only if the library returns different numbers of entries for the two.
\<close>

definition BaseDensity_potential :: "('d, 'k) library \<Rightarrow> 'd BaseDensity \<Rightarrow> State \<Rightarrow> exn + real" where
  "BaseDensity_potential lib self inp =
     (case stack [vector (log_prob lib (rot_model self) (s_rot inp)),
                  vector (log_prob lib (rot_model self) (negate (s_rot inp)))] of
        Inl e \<Rightarrow> Inl e
      | Inr stacked \<Rightarrow>
          (let rot_prob = sum_list (elems (logsumexp stacked));
               pos_prob = sum_list (log_prob lib (pos_model self) (s_pos inp));
               aux_prob = sum_list (log_prob lib (base_aux_model self) (s_aux inp))
           in Inr (- (rot_prob + aux_prob + pos_prob))))"

text \<open>\<^verbatim>\<open>rot * sign\<close> for a rotation array of shape \<open>(m, d)\<close> and signs of shape \<open>(m, 1)\<close>:
  every row is scaled by its sign.  Other shapes are outside the model.\<close>

definition scale_rows :: "ndarray \<Rightarrow> ndarray \<Rightarrow> exn + ndarray" where
  "scale_rows a s =
     (case shape a of
        [m, d] \<Rightarrow>
          if shape s = [m, 1]
          then Inr (a\<lparr>elems := map2 (*) (elems a) (concat (map (replicate d) (elems s)))\<rparr>)
          else Inl (ValueError ''shapes outside the model'')
      | _ \<Rightarrow> Inl (ValueError ''shapes outside the model''))"

text \<open>\<^verbatim>\<open>BaseDensity.sample\<close>.  The chain gives four keys, in the order of the draws; the
  log-density returned is the potential of the state just built.\<close>

definition BaseDensity_sample ::
  "('d, 'k) library \<Rightarrow> 'd BaseDensity \<Rightarrow> 'k \<Rightarrow> exn + State \<times> real" where
  "BaseDensity_sample lib self key =
     (let chain = key_chain lib key;
          rot0 = sample_from lib (rot_model self) (chain 0)
      in case shape0 rot0 of
           Inl e \<Rightarrow> Inl e
         | Inr m \<Rightarrow>
            (case scale_rows rot0 (sign (random_normal lib (chain 1) [m, 1])) of
               Inl e \<Rightarrow> Inl e
             | Inr rot \<Rightarrow>
                (let pos = sample_from lib (pos_model self) (chain 2) in
                 case shape0 pos of
                   Inl e \<Rightarrow> Inl e
                 | Inr k \<Rightarrow>
                    (let ics = (full [k] 0.09572, full [k] 0.09572, full [k] 1.824218);
                         aux = sample_from lib (base_aux_model self) (chain 3);
                         state = \<lparr>s_rot = rot, s_pos = pos, s_ics = ics, s_aux = aux,
                                  s_box = base_box self\<rparr>
                     in case BaseDensity_potential lib self state of
                          Inl e \<Rightarrow> Inl e
                        | Inr log_density \<Rightarrow> Inr (state, log_density)))))"

section \<open>The target density: \<open>TargetDensity\<close>\<close>

text \<open>\<^verbatim>\<open>Data\<close> and \<^verbatim>\<open>AugmentedData\<close> are declared outside the files at hand; the fields are
  the attributes read by \<^verbatim>\<open>TargetDensity\<close>, and the arguments of the constructor call in
  \<^verbatim>\<open>TargetDensity.sample\<close>.  A dataset's arrays have one entry per frame along the
  leading axis.\<close>

record Data =
  data_pos :: ndarray
  data_box :: ndarray
  data_force :: "ndarray option"

record AugmentedData =
  d_pos :: ndarray
  d_aux :: ndarray
  d_sign :: ndarray
  d_box :: SimulationBox
  d_force :: "ndarray option"

text \<open>
  \<^verbatim>\<open>TargetDensity.potential\<close> passes functions around as values, so the Python objects
  it handles are data here.  A callable is one of the two functions that
  \<^verbatim>\<open>wrap_openmm_model\<close> defines (both refer to the one oracle of the density, whose state
  is passed along), a \<^verbatim>\<open>functools.partial\<close> object, or the function that
  \<^verbatim>\<open>cutoff_potential\<close> returns.  \<^verbatim>\<open>wrap_openmm_model\<close> returns the pair
  \<^verbatim>\<open>eval, compute_energy_and_forces\<close>, which is a tuple.
\<close>

datatype pyarg = PyArr ndarray | PyBool bool | PyNone

datatype callable =
    BridgeEval
  | BridgeCompute
  | Partial callable "(string \<times> pyarg) list"
  | CutoffEval callable ndarray real

datatype pyobj = Fn callable | Tuple "pyobj list"

datatype pyval = ArrV ndarray | PairV ndarray ndarray

definition wrap_openmm_model :: "OpenMMEnergyModel \<Rightarrow> pyobj" where
  "wrap_openmm_model mdl = Tuple [Fn BridgeEval, Fn BridgeCompute]"

text \<open>\<^verbatim>\<open>functools.partial(func, **keywords)\<close> raises a \<^verbatim>\<open>TypeError\<close> when \<open>func\<close> is not
  callable.\<close>

definition functools_partial :: "pyobj \<Rightarrow> (string \<times> pyarg) list \<Rightarrow> exn + callable" where
  "functools_partial func keywords =
     (case func of
        Fn f \<Rightarrow> Inr (Partial f keywords)
      | Tuple _ \<Rightarrow> Inl (TypeError ''the first argument must be callable''))"

definition cutoff_potential :: "callable \<Rightarrow> ndarray \<Rightarrow> real \<Rightarrow> callable" where
  "cutoff_potential potential reference threshold = CutoffEval potential reference threshold"

text \<open>Binding of positional and keyword arguments to the parameters of a function, none of
  which has a default; every failure is a \<^verbatim>\<open>TypeError\<close>.\<close>

definition bind_arguments ::
  "string list \<Rightarrow> pyarg list \<Rightarrow> (string \<times> pyarg) list \<Rightarrow> exn + (string \<Rightarrow> pyarg option)" where
  "bind_arguments params args kw =
     (let positional = zip params args in
      if length params < length args then Inl (TypeError ''too many positional arguments'')
      else if list_ex (\<lambda>k. k \<in> set (map fst positional)) (map fst kw)
      then Inl (TypeError ''multiple values for argument'')
      else if list_ex (\<lambda>p. p \<notin> set (map fst positional) \<and> p \<notin> set (map fst kw)) params
      then Inl (TypeError ''missing a required argument'')
      else if list_ex (\<lambda>k. k \<notin> set params) (map fst kw)
      then Inl (TypeError ''got an unexpected keyword argument'')
      else Inr (map_of (positional @ kw)))"

text \<open>The keywords of a call override those stored in a \<^verbatim>\<open>partial\<close> object.\<close>

definition merge_keywords ::
  "(string \<times> pyarg) list \<Rightarrow> (string \<times> pyarg) list \<Rightarrow> (string \<times> pyarg) list" where
  "merge_keywords kw0 kw = filter (\<lambda>p. fst p \<notin> set (map fst kw)) kw0 @ kw"

text \<open>
  A call of a callable with positional and keyword arguments.  The result is the value
  and, for use under \<^verbatim>\<open>jax.value_and_grad\<close>, the gradient with respect to the first
  argument as the registered backward rule gives it for cotangent one (or the exception
  that differentiation raises).
\<close>

fun invoke ::
  "engine \<Rightarrow> (nat \<Rightarrow> nat \<Rightarrow> real) \<Rightarrow> callable \<Rightarrow> pyarg list \<Rightarrow> (string \<times> pyarg) list
     \<Rightarrow> OpenMMEnergyModel \<times> runtime
     \<Rightarrow> (OpenMMEnergyModel \<times> runtime) \<times> (exn + pyval \<times> (exn + ndarray))" where
  "invoke eng uninit BridgeEval args kw (mdl, r) =
     (case bind_arguments [''pos'', ''box'', ''has_batch_dim''] args kw of
        Inl e \<Rightarrow> ((mdl, r), Inl e)
      | Inr env \<Rightarrow>
          (case (env ''pos'', env ''box'', env ''has_batch_dim'') of
             (Some (PyArr pos), Some (PyArr box), Some (PyBool h)) \<Rightarrow>
               (case eval_fwd eng uninit mdl pos (Some box) h r of
                  (s, Inl e) \<Rightarrow> (s, Inl e)
                | (s, Inr (energy, force)) \<Rightarrow>
                    (s, Inr (ArrV energy,
                       if shape energy = [] then Inr (eval_bwd (Some box) h force 1)
                       else Inl (TypeError ''Gradient only defined for scalar-output functions''))))
           | (Some (PyArr pos), Some PyNone, Some (PyBool h)) \<Rightarrow>
               (case eval_fwd eng uninit mdl pos None h r of
                  (s, Inl e) \<Rightarrow> (s, Inl e)
                | (s, Inr (energy, force)) \<Rightarrow>
                    (s, Inr (ArrV energy,
                       if shape energy = [] then Inr (eval_bwd None h force 1)
                       else Inl (TypeError ''Gradient only defined for scalar-output functions''))))
           | _ \<Rightarrow> ((mdl, r), Inl (TypeError ''argument types outside the model''))))"
| "invoke eng uninit BridgeCompute args kw (mdl, r) =
     (case bind_arguments [''pos'', ''box'', ''has_batch_dim''] args kw of
        Inl e \<Rightarrow> ((mdl, r), Inl e)
      | Inr env \<Rightarrow>
          (case (env ''pos'', env ''box'', env ''has_batch_dim'') of
             (Some (PyArr pos), Some (PyArr box), Some (PyBool h)) \<Rightarrow>
               (case compute_energy_and_forces eng uninit mdl pos (Some box) h r of
                  (s, Inl e) \<Rightarrow> (s, Inl e)
                | (s, Inr (energies, forces)) \<Rightarrow>
                    (s, Inr (PairV energies forces,
                             Inl (ValueError ''pure_callback has no differentiation rule''))))
           | (Some (PyArr pos), Some PyNone, Some (PyBool h)) \<Rightarrow>
               (case compute_energy_and_forces eng uninit mdl pos None h r of
                  (s, Inl e) \<Rightarrow> (s, Inl e)
                | (s, Inr (energies, forces)) \<Rightarrow>
                    (s, Inr (PairV energies forces,
                             Inl (ValueError ''pure_callback has no differentiation rule''))))
           | _ \<Rightarrow> ((mdl, r), Inl (TypeError ''argument types outside the model''))))"
| "invoke eng uninit (Partial f keywords) args kw (mdl, r) =
     invoke eng uninit f args (merge_keywords keywords kw) (mdl, r)"
| "invoke eng uninit (CutoffEval potential reference threshold) args kw (mdl, r) =
     (case bind_arguments [''inp''] args kw of
        Inl e \<Rightarrow> ((mdl, r), Inl e)
      | Inr env \<Rightarrow>
          (case env ''inp'' of
             Some (PyArr inp) \<Rightarrow>
               (case invoke eng uninit potential [PyArr inp] [] (mdl, r) of
                  (s, Inl e) \<Rightarrow> (s, Inl e)
                | (s, Inr (PairV _ _, _)) \<Rightarrow>
                    (s, Inl (TypeError ''Gradient only defined for scalar-output functions''))
                | (s, Inr (ArrV original, Inl e)) \<Rightarrow> (s, Inl e)
                | (s, Inr (ArrV original, Inr grad)) \<Rightarrow>
                    (case cutoff_blend reference threshold inp (sum_list (elems original)) grad of
                       Inl e \<Rightarrow> (s, Inl e)
                     | Inr (out, res) \<Rightarrow>
                         (s, Inr (ArrV \<lparr>shape = [], elems = [out]\<rparr>, Inr (cutoff_eval_bwd res 1)))))
           | _ \<Rightarrow> ((mdl, r), Inl (TypeError ''argument types outside the model''))))"

text \<open>\<^verbatim>\<open>SystemSpecification\<close> is declared outside the files at hand and is a type parameter.\<close>

record ('d, 'specs) TargetDensity =
  target_aux_model :: 'd
  sys_specs :: 'specs
  target_model :: OpenMMEnergyModel
  target_data :: "Data option"
  cutoff :: "real option"

text \<open>The property \<^verbatim>\<open>box\<close>.  The density is returned beside the result, as the call
  leaves it.\<close>

definition TargetDensity_box ::
  "('d, 'specs) TargetDensity \<Rightarrow> ('d, 'specs) TargetDensity \<times> (exn + SimulationBox)" where
  "TargetDensity_box self =
     (case target_data self of
        None \<Rightarrow> (self, Inl (ValueError ''Data not loaded.''))
      | Some d \<Rightarrow>
          (case index0 (data_box d) of
             Inl e \<Rightarrow> (self, Inl e)
           | Inr b \<Rightarrow> (self, Inr (new_SimulationBox b))))"

text \<open>
  \<^verbatim>\<open>TargetDensity.potential\<close>.  The keyword values of the \<^verbatim>\<open>partial\<close> call are evaluated
  before the call, so \<^verbatim>\<open>inp.box.size\<close> comes first.
\<close>

definition TargetDensity_potential ::
  "engine \<Rightarrow> (nat \<Rightarrow> nat \<Rightarrow> real) \<Rightarrow> ('d, 'k) library \<Rightarrow> ('d, 'specs) TargetDensity
     \<Rightarrow> AugmentedData \<Rightarrow> runtime
     \<Rightarrow> (('d, 'specs) TargetDensity \<times> runtime) \<times> (exn + ndarray)" where
  "TargetDensity_potential eng uninit lib self inp r =
     (let aux_prob = sum_list (log_prob lib (target_aux_model self) (d_aux inp)) in
      case size_box (d_box inp) of
        Inl e \<Rightarrow> ((self, r), Inl e)
      | Inr sz \<Rightarrow>
         (case functools_partial (wrap_openmm_model (target_model self))
                 [(''box'', PyArr sz), (''has_batch_dim'', PyBool False)] of
            Inl e \<Rightarrow> ((self, r), Inl e)
          | Inr energy \<Rightarrow>
             (case (case cutoff self of
                      None \<Rightarrow> Inr energy
                    | Some t \<Rightarrow>
                        (case target_data self of
                           None \<Rightarrow> Inl (ValueError ''cutoff != None requires data.'')
                         | Some d \<Rightarrow>
                             (case index0 (data_pos d) of
                                Inl e \<Rightarrow> Inl e
                              | Inr reference \<Rightarrow> Inr (cutoff_potential energy reference t)))) of
                Inl e \<Rightarrow> ((self, r), Inl e)
              | Inr energy' \<Rightarrow>
                 (case invoke eng uninit energy' [PyArr (d_pos inp), PyArr sz] []
                         (target_model self, r) of
                    ((mdl', r'), Inl e) \<Rightarrow> ((self\<lparr>target_model := mdl'\<rparr>, r'), Inl e)
                  | ((mdl', r'), Inr (PairV _ _, _)) \<Rightarrow>
                      ((self\<lparr>target_model := mdl'\<rparr>, r'),
                       Inl (TypeError ''unsupported operand type(s) for +''))
                  | ((mdl', r'), Inr (ArrV pot, _)) \<Rightarrow>
                      ((self\<lparr>target_model := mdl'\<rparr>, r'),
                       Inr (pot\<lparr>elems := map (\<lambda>x. - aux_prob + x) (elems pot)\<rparr>))))))"

section \<open>Notions used in the statements\<close>

text \<open>
  A sample evaluates when the engine gives energy and forces for its context, \<open>kbT\<close> is
  not zero, and the force array has a row for every atom or one row only; then the
  \<^verbatim>\<open>try\<close> block and the \<^verbatim>\<open>finally\<close> clause run without an exception.
  \<open>sample_energy\<close> and \<open>sample_force\<close> are what they store for such a sample.
\<close>

definition evaluates :: "engine \<Rightarrow> real \<Rightarrow> WaterModel \<Rightarrow> openmm_context \<Rightarrow> bool" where
  "evaluates eng k m c =
     (case eng c of
        Evaluated E F \<Rightarrow> k \<noteq> 0 \<and> (length F = n_atoms m * 3 \<or> length F = 3)
      | _ \<Rightarrow> False)"

definition sample_energy :: "engine \<Rightarrow> real \<Rightarrow> openmm_context \<Rightarrow> real" where
  "sample_energy eng k c = (case eng c of Evaluated E F \<Rightarrow> E / k | _ \<Rightarrow> 0)"

definition sample_force :: "engine \<Rightarrow> real \<Rightarrow> WaterModel \<Rightarrow> openmm_context \<Rightarrow> real list" where
  "sample_force eng k m c =
     (case eng c of
        Evaluated E F \<Rightarrow>
          (case mask_force (map (\<lambda>f. f / k) F) (vs_mask m) (n_atoms m) of
             Inr fs \<Rightarrow> fs | Inl _ \<Rightarrow> [])
      | _ \<Rightarrow> [])"

text \<open>The box vectors in force during a call: those given, or those the context holds.\<close>

definition box_in_force :: "OpenMMEnergyModel \<Rightarrow> ndarray option \<Rightarrow> real list" where
  "box_in_force self box =
     (case box of None \<Rightarrow> box_vectors (context_handle self) | Some bx \<Rightarrow> elems bx)"

definition bridge_box :: "OpenMMEnergyModel \<Rightarrow> ndarray option \<Rightarrow> real list" where
  "bridge_box mdl box =
     (case box of None \<Rightarrow> box_vectors (context_handle mdl) | Some b \<Rightarrow> diag (elems b))"

text \<open>A row of forces that has the length of the mask and is zero wherever the mask is.\<close>

definition masked_row :: "OpenMMEnergyModel \<Rightarrow> real list \<Rightarrow> bool" where
  "masked_row self xs =
     (length xs = n_atoms (model self) * 3 \<and>
      (\<forall>j<length xs. elems (vs_mask (model self)) ! j = 0 \<longrightarrow> xs ! j = 0))"

text \<open>
  Evaluating the configurations of a list one by one: a call of the bridge without batch
  dimension for each, in order, on the oracle as the call before left it.  The results
  are collected in two lists.
\<close>

fun evaluate_individually ::
  "engine \<Rightarrow> (nat \<Rightarrow> nat \<Rightarrow> real) \<Rightarrow> OpenMMEnergyModel \<Rightarrow> ndarray option \<Rightarrow> ndarray list
     \<Rightarrow> runtime \<Rightarrow> (OpenMMEnergyModel \<times> runtime) \<times> (exn + ndarray list \<times> ndarray list)" where
  "evaluate_individually eng uninit mdl box [] r = ((mdl, r), Inr ([], []))"
| "evaluate_individually eng uninit mdl box (x # xs) r =
     (case compute_energy_and_forces eng uninit mdl x box False r of
        (s, Inl e) \<Rightarrow> (s, Inl e)
      | ((mdl', r'), Inr (energy, force)) \<Rightarrow>
          (case evaluate_individually eng uninit mdl' box xs r' of
             (s, Inl e) \<Rightarrow> (s, Inl e)
           | (s, Inr (es, fs)) \<Rightarrow> (s, Inr (energy # es, force # fs))))"

text \<open>The Euclidean norm, and the logarithm of the sum of two exponentials as
  \<open>logsumexp\<close> computes it.\<close>

definition l2norm :: "real list \<Rightarrow> real" where
  "l2norm xs = sqrt (sum_squares xs)"

definition lse2 :: "real \<Rightarrow> real \<Rightarrow> real" where
  "lse2 x y = ln (exp (x - max y x) + exp (y - max y x)) + max y x"

section \<open>Example inputs\<close>

text \<open>
  A system of one molecule with two sites, the second a virtual site; an engine that
  fails on a negative coordinate; buffers that hold sevens when fresh.
\<close>

definition example_model :: WaterModel where
  "example_model =
     \<lparr>n_atoms = 2, n_molecules = 1, n_sites = 2,
      vs_mask = \<lparr>shape = [2, 3], elems = [1, 1, 1, 0, 0, 0]\<rparr>\<rparr>"

definition example_oracle :: OpenMMEnergyModel where
  "example_oracle =
     \<lparr>kbT = 2, model = example_model,
      context_handle = \<lparr>box_vectors = [1, 0, 0, 0, 1, 0, 0, 0, 1], positions = [0, 0, 0, 0, 0, 0]\<rparr>,
      error_handling = LogWarning\<rparr>"

definition example_engine :: engine where
  "example_engine c =
     (if list_ex (\<lambda>x. x < 0) (positions c)
      then QueryFailed (EngineError ''Particle coordinate is NaN'')
      else Evaluated (sum_list (positions c)) (map (\<lambda>x. 4 * x) (positions c)))"

definition example_uninit :: "nat \<Rightarrow> nat \<Rightarrow> real" where
  "example_uninit a k = 7"

definition fresh_runtime :: runtime where
  "fresh_runtime = \<lparr>warnings = [], allocations = 0\<rparr>"

definition good_config :: ndarray where
  "good_config = \<lparr>shape = [1, 2, 3], elems = [1, 2, 3, 4, 5, 6]\<rparr>"

definition other_config :: ndarray where
  "other_config = \<lparr>shape = [1, 2, 3], elems = [0, 1, 0, 1, 0, 1]\<rparr>"

definition bad_batch :: ndarray where
  "bad_batch = \<lparr>shape = [1, 2, 3], elems = [- 1, 0, 0, 0, 0, 0]\<rparr>"

text \<open>Two potentials on vectors: \<open>P(x) = 2 * sum x\<close>, and the constant one.\<close>

definition linear_potential :: "ndarray \<Rightarrow> unit \<Rightarrow> unit \<times> (exn + real \<times> ndarray)" where
  "linear_potential inp s =
     (s, Inr (2 * sum_list (elems inp), inp\<lparr>elems := map (\<lambda>x. 2) (elems inp)\<rparr>))"

definition flat_potential :: "ndarray \<Rightarrow> unit \<Rightarrow> unit \<times> (exn + real \<times> ndarray)" where
  "flat_potential inp s = (s, Inr (1, inp\<lparr>elems := map (\<lambda>x. 0) (elems inp)\<rparr>))"

text \<open>A library whose distributions are numbered: number 0 draws one quaternion, the
  others one position; every log-density is \<open>- x\<^sup>2 / 2\<close>.\<close>

definition example_library :: "(nat, nat) library" where
  "example_library =
     \<lparr>log_prob = (\<lambda>d a. map (\<lambda>x. - (x\<^sup>2) / 2) (elems a)),
      sample_from = (\<lambda>d k. if d = 0 then \<lparr>shape = [1, 4], elems = [1, 0, 0, 0]\<rparr>
                            else \<lparr>shape = [1, 3], elems = [0, 0, 0]\<rparr>),
      random_normal = (\<lambda>k sh. \<lparr>shape = sh, elems = replicate (prod_list sh) (- 1)\<rparr>),
      key_chain = (\<lambda>k i. k + i)\<rparr>"

definition example_base :: "nat BaseDensity" where
  "example_base =
     \<lparr>base_box = new_SimulationBox \<lparr>shape = [3], elems = [1, 1, 1]\<rparr>,
      rot_model = 0, pos_model = 1, base_aux_model = 2\<rparr>"

definition example_data :: Data where
  "example_data =
     \<lparr>data_pos = \<lparr>shape = [1, 1, 2, 3], elems = [1, 2, 3, 4, 5, 6]\<rparr>,
      data_box = \<lparr>shape = [2, 3], elems = [1, 2, 3, 4, 5, 6]\<rparr>,
      data_force = None\<rparr>"

definition example_target :: "ndarray option \<Rightarrow> (nat, unit) TargetDensity" where
  "example_target d =
     \<lparr>target_aux_model = 2, sys_specs = (), target_model = example_oracle,
      target_data = map_option (\<lambda>b. example_data\<lparr>data_box := b\<rparr>) d, cutoff = None\<rparr>"

definition example_input :: AugmentedData where
  "example_input =
     \<lparr>d_pos = good_config, d_aux = \<lparr>shape = [1], elems = [0]\<rparr>,
      d_sign = \<lparr>shape = [1, 1], elems = [1]\<rparr>,
      d_box = new_SimulationBox \<lparr>shape = [3], elems = [1, 1, 1]\<rparr>, d_force = None\<rparr>"

section \<open>The oracle: error policy and virtual sites\<close>

text \<open>The policy argument of a call is stored in a local variable that nothing reads:
  a call with a policy behaves as the call without one.\<close>

lemma override_never_read:
  "compute_energies_and_forces eng uninit self pos box eh r =
   compute_energies_and_forces eng uninit self pos box None r"
  by (simp add: compute_energies_and_forces_def Let_def split: sum.splits)

text \<open>With \<open>RaiseException\<close> as the oracle's own policy, the same batch does raise.\<close>

lemma own_policy_raise_applied:
  "snd (compute_energies_and_forces example_engine example_uninit
          (example_oracle\<lparr>error_handling := RaiseException\<rparr>) bad_batch None None fresh_runtime) =
   Inl (EngineError ''Particle coordinate is NaN'')"
  by code_simp

text \<open>
  C1.  A failure of one sample should be handled by the policy given to the call, and by
  the oracle's own policy only when none is given.  The code dispatches on the oracle's
  own policy in every case: an oracle built with \<open>LogWarning\<close> and called with
  \<open>RaiseException\<close> on a batch whose one sample fails does not raise; it logs the failure
  and returns the batch, the failed sample's energy being what the fresh buffer held.
\<close>

theorem override_raise_not_applied:
  "compute_energies_and_forces example_engine example_uninit example_oracle bad_batch None
     (Some RaiseException) fresh_runtime =
   ((example_oracle\<lparr>context_handle :=
        \<lparr>box_vectors = [1, 0, 0, 0, 1, 0, 0, 0, 1], positions = [- 1, 0, 0, 0, 0, 0]\<rparr>\<rparr>,
     \<lparr>warnings = [''Particle coordinate is NaN''], allocations = 4\<rparr>),
    Inr (\<lparr>shape = [1], elems = [7]\<rparr>, \<lparr>shape = [1, 2, 3], elems = [7, 7, 7, 0, 0, 0]\<rparr>))"
  by code_simp

lemma length_concat_replicate: "length (concat (replicate n xs)) = n * length xs"
  by (induction n) simp_all

lemma mask_force_masked_row:
  assumes "mask_force force (vs_mask (model self)) (n_atoms (model self)) = Inr m"
      and "length (elems (vs_mask (model self))) = n_atoms (model self) * 3"
  shows "masked_row self m"
  using assms
  by (auto simp: mask_force_def masked_row_def length_concat_replicate split: if_splits)

lemma sample_step_forces:
  assumes "sample_step eng uninit self i p st = (st', None)"
      and "length (elems (vs_mask (model self))) = n_atoms (model self) * 3"
  shows "\<exists>m. masked_row self m \<and> forces_buf st' = (forces_buf st)[i := m]"
proof -
  obtain e0 r1 where a: "np_empty_scalar uninit (rt st) = (e0, r1)" by force
  obtain f0 r2 where b: "np_empty uninit (n_atoms (model self) * 3) r1 = (f0, r2)" by force
  obtain energy force caught
    where c: "try_block eng self ((ctx st)\<lparr>positions := p\<rparr>) e0 f0 = ((energy, force), caught)"
    by (metis surj_pair)
  from assms(1) a b c obtain m
    where "mask_force force (vs_mask (model self)) (n_atoms (model self)) = Inr m"
      and "forces_buf st' = (forces_buf st)[i := m]"
    by (auto simp: sample_step_def Let_def split: sum.splits prod.splits option.splits)
  with assms(2) show ?thesis
    using mask_force_masked_row by blast
qed

lemma sample_loop_forces:
  assumes "sample_loop eng uninit self pos is st = (st', None)"
      and "length (elems (vs_mask (model self))) = n_atoms (model self) * 3"
      and "\<forall>i<length (forces_buf st). i \<in> A \<longrightarrow> masked_row self (forces_buf st ! i)"
  shows "length (forces_buf st') = length (forces_buf st) \<and>
         (\<forall>i<length (forces_buf st). i \<in> A \<union> set is \<longrightarrow> masked_row self (forces_buf st' ! i))"
  using assms
proof (induction "is" arbitrary: st A)
  case Nil
  then show ?case by simp
next
  case (Cons i "is")
  let ?p = "row (n_atoms (model self) * 3) i (elems pos)"
  obtain st1 x where s: "sample_step eng uninit self i ?p st = (st1, x)" by force
  with Cons.prems(1) have x: "x = None"
    and l: "sample_loop eng uninit self pos is st1 = (st', None)"
    by (auto split: option.splits)
  from s x Cons.prems(2) obtain m
    where m: "masked_row self m" "forces_buf st1 = (forces_buf st)[i := m]"
    using sample_step_forces by blast
  have inv: "\<forall>k<length (forces_buf st1). k \<in> insert i A \<longrightarrow> masked_row self (forces_buf st1 ! k)"
  proof (intro allI impI)
    fix k assume "k < length (forces_buf st1)" "k \<in> insert i A"
    then show "masked_row self (forces_buf st1 ! k)"
      using m Cons.prems(3) by (cases "k = i") auto
  qed
  from Cons.IH [OF l Cons.prems(2) inv] m(2) show ?case by auto
qed

lemma nth_concat_uniform:
  assumes "\<forall>r\<in>set rows. length r = w" and "i < length rows" and "j < w"
  shows "concat rows ! (i * w + j) = rows ! i ! j"
  using assms
proof (induction rows arbitrary: i)
  case Nil
  then show ?case by simp
next
  case (Cons r rows)
  show ?case
  proof (cases i)
    case 0
    with Cons.prems show ?thesis by (simp add: nth_append)
  next
    case (Suc k)
    with Cons.prems have "concat rows ! (k * w + j) = rows ! k ! j"
      by (intro Cons.IH) auto
    with Suc Cons.prems show ?thesis by (simp add: nth_append add.assoc)
  qed
qed

text \<open>
  On finite values the masking does zero the virtual sites: whatever finite forces the
  engine reports and whichever samples fail, when the call returns its arrays, the
  returned force of every sample is zero at every entry where the mask is zero.
\<close>

lemma masked_forces_zero_on_finite_values:
  assumes "compute_energies_and_forces eng uninit self pos box eh r = (s, Inr (E, F))"
      and "wf_array (vs_mask (model self))"
      and "i < length (elems pos) div (n_atoms (model self) * 3)"
      and "j < n_atoms (model self) * 3"
      and "elems (vs_mask (model self)) ! j = 0"
  shows "elems F ! (i * (n_atoms (model self) * 3) + j) = 0"
proof -
  let ?n = "n_atoms (model self)"
  let ?b = "length (elems pos) div (?n * 3)"
  obtain pos' where p: "reshape_batch pos ?n = Inr pos'"
    using assms(1) by (auto simp: compute_energies_and_forces_def Let_def split: sum.splits)
  then have b: "hd (shape pos') = ?b"
    by (auto simp: reshape_batch_def split: if_splits)
  from assms(1) p b have sh: "shape (vs_mask (model self)) = [?n, 3]"
    by (auto simp: compute_energies_and_forces_def Let_def split: sum.splits prod.splits if_splits option.splits)
  with assms(2) have len: "length (elems (vs_mask (model self))) = ?n * 3"
    by (simp add: wf_array_def)
  from assms(1) p b obtain self1 st0 st
    where loop: "sample_loop eng uninit self1 pos' [0..<?b] st0 = (st, None)"
      and m1: "model self1 = model self"
      and l0: "length (forces_buf st0) = ?b"
      and F: "elems F = concat (forces_buf st)"
    by (auto simp: compute_energies_and_forces_def Let_def split: sum.splits prod.splits if_splits option.splits)
  have "length (forces_buf st) = length (forces_buf st0) \<and>
        (\<forall>i<length (forces_buf st0). i \<in> {} \<union> set [0..<?b] \<longrightarrow> masked_row self1 (forces_buf st ! i))"
    by (rule sample_loop_forces [OF loop]) (simp_all add: m1 len)
  with l0 m1 have rows: "length (forces_buf st) = ?b"
    "\<forall>i<?b. masked_row self (forces_buf st ! i)"
    by (auto simp: masked_row_def)
  then have "\<forall>r\<in>set (forces_buf st). length r = ?n * 3"
    by (auto simp: in_set_conv_nth masked_row_def)
  then have "concat (forces_buf st) ! (i * (?n * 3) + j) = forces_buf st ! i ! j"
    using rows(1) assms(3,4) by (intro nth_concat_uniform) auto
  moreover have "forces_buf st ! i ! j = 0"
    using rows(2) assms(3,4,5) by (auto simp: masked_row_def)
  ultimately show ?thesis using F by simp
qed

lemma masked_forces_zero_on_finite_values_example:
  "compute_energies_and_forces example_engine example_uninit example_oracle good_config None None
     fresh_runtime =
   ((example_oracle\<lparr>context_handle :=
        \<lparr>box_vectors = [1, 0, 0, 0, 1, 0, 0, 0, 1], positions = [1, 2, 3, 4, 5, 6]\<rparr>\<rparr>,
     \<lparr>warnings = [], allocations = 4\<rparr>),
    Inr (\<lparr>shape = [1], elems = [21 / 2]\<rparr>, \<lparr>shape = [1, 2, 3], elems = [2, 4, 6, 0, 0, 0]\<rparr>)) \<and>
   elems \<lparr>shape = [1, 2, 3], elems = [2, 4, 6, 0, 0, 0 :: real]\<rparr> ! (0 * (2 * 3) + 4) = 0"
proof -
  have call: "compute_energies_and_forces example_engine example_uninit example_oracle good_config
      None None fresh_runtime =
    ((example_oracle\<lparr>context_handle :=
        \<lparr>box_vectors = [1, 0, 0, 0, 1, 0, 0, 0, 1], positions = [1, 2, 3, 4, 5, 6]\<rparr>\<rparr>,
      \<lparr>warnings = [], allocations = 4\<rparr>),
     Inr (\<lparr>shape = [1], elems = [21 / 2]\<rparr>, \<lparr>shape = [1, 2, 3], elems = [2, 4, 6, 0, 0, 0]\<rparr>))"
    by code_simp
  have wf: "wf_array (vs_mask (model example_oracle))"
    by code_simp
  have i: "0 < length (elems good_config) div (n_atoms (model example_oracle) * 3)"
    by code_simp
  have j: "4 < n_atoms (model example_oracle) * 3"
    by code_simp
  have z: "elems (vs_mask (model example_oracle)) ! 4 = 0"
    by code_simp
  have n: "n_atoms (model example_oracle) = 2"
    by code_simp
  from masked_forces_zero_on_finite_values [OF call wf i j z] call show ?thesis
    by (simp add: n)
qed

text \<open>
  C6.  Every returned force entry at a virtual site should be exactly zero, whatever the
  engine reports; the comment on the masking line says so too.  The zeroing is a
  multiplication by the mask, and on IEEE values it fails: for the example system
  (\<open>kbT = 2\<close>, mask \<open>[[1, 1, 1], [0, 0, 0]]\<close>) and an engine that reports the force
  \<open>+inf\<close> on every entry, the row stored for the sample holds NaN at the three entries of
  the virtual site; so does the row of a failed sample whose fresh buffer holds NaN.
\<close>

theorem virtual_site_force_not_zeroed:
  "stored_forces_ieee [PosInf, PosInf, PosInf, PosInf, PosInf, PosInf] 2
     [Finite 1, Finite 1, Finite 1, Finite 0, Finite 0, Finite 0] 2 =
     Inr [PosInf, PosInf, PosInf, NaN, NaN, NaN] \<and>
   mask_force_ieee [NaN, NaN, NaN, NaN, NaN, NaN]
     [Finite 1, Finite 1, Finite 1, Finite 0, Finite 0, Finite 0] 2 =
     Inr [NaN, NaN, NaN, NaN, NaN, NaN]"
  by (simp add: stored_forces_ieee_def mask_force_ieee_def)

section \<open>The bridge: backward rule and batches\<close>

text \<open>
  C5.  When the forward rule has evaluated a configuration without batch dimension and
  kept the residual, the backward rule gives, for every cotangent \<open>g\<close>, the array of the
  shape of the positions whose entries are \<open>- g\<close> times the entries of the force array
  that the oracle returned for the flattened configuration in that very call.
\<close>

theorem backward_rule_negated_force:
  assumes "eval_fwd eng uninit mdl pos box False r = (s, Inr (energy, res))"
  shows "\<exists>pos_flat E F.
           reshape_flat (expand_dims pos) = Inr pos_flat \<and>
           compute_energies_and_forces eng uninit mdl pos_flat
             (map_option (\<lambda>b. \<lparr>shape = [3, 3], elems = diag (elems b)\<rparr>) box) None r =
               (s, Inr (E, F)) \<and>
           eval_bwd box False res g = \<lparr>shape = shape pos, elems = map (\<lambda>f. - g * f) (elems F)\<rparr>"
proof -
  let ?box' = "map_option (\<lambda>b. \<lparr>shape = [3, 3], elems = diag (elems b)\<rparr>) box"
  from assms have c: "compute_energy_and_forces eng uninit mdl pos box False r =
      (s, Inr (energy, res))"
    by (auto simp: eval_fwd_def split: prod.splits sum.splits)
  then obtain pos_flat where f: "reshape_flat (expand_dims pos) = Inr pos_flat"
    by (auto simp: compute_energy_and_forces_def Let_def split: if_splits sum.splits)
  from c f obtain E F
    where o: "compute_energies_and_forces eng uninit mdl pos_flat ?box' None r = (s, Inr (E, F))"
      and q: "squeeze (F\<lparr>shape := shape (expand_dims pos)\<rparr>) = Inr res"
    by (auto simp: compute_energy_and_forces_def Let_def
        split: if_splits sum.splits prod.splits)
  from q have "res = \<lparr>shape = shape pos, elems = elems F\<rparr>"
    by (auto simp: squeeze_def expand_dims_def)
  then have "eval_bwd box False res g = \<lparr>shape = shape pos, elems = map (\<lambda>f. - g * f) (elems F)\<rparr>"
    by (simp add: eval_bwd_def)
  with f o show ?thesis by blast
qed

theorem backward_rule_negated_force_witness:
  "eval_fwd example_engine example_uninit example_oracle good_config None False fresh_runtime =
     ((example_oracle\<lparr>context_handle :=
          \<lparr>box_vectors = [1, 0, 0, 0, 1, 0, 0, 0, 1], positions = [1, 2, 3, 4, 5, 6]\<rparr>\<rparr>,
       \<lparr>warnings = [], allocations = 4\<rparr>),
      Inr (\<lparr>shape = [], elems = [21 / 2]\<rparr>, \<lparr>shape = [1, 2, 3], elems = [2, 4, 6, 0, 0, 0]\<rparr>)) \<and>
   (\<exists>pos_flat E F.
      reshape_flat (expand_dims good_config) = Inr pos_flat \<and>
      compute_energies_and_forces example_engine example_uninit example_oracle pos_flat
        (map_option (\<lambda>b. \<lparr>shape = [3, 3], elems = diag (elems b)\<rparr>) None) None fresh_runtime =
          ((example_oracle\<lparr>context_handle :=
               \<lparr>box_vectors = [1, 0, 0, 0, 1, 0, 0, 0, 1], positions = [1, 2, 3, 4, 5, 6]\<rparr>\<rparr>,
            \<lparr>warnings = [], allocations = 4\<rparr>), Inr (E, F)) \<and>
      eval_bwd None False \<lparr>shape = [1, 2, 3], elems = [2, 4, 6, 0, 0, 0]\<rparr> 3 =
        \<lparr>shape = shape good_config, elems = map (\<lambda>f. - 3 * f) (elems F)\<rparr>)"
proof -
  have h: "eval_fwd example_engine example_uninit example_oracle good_config None False
      fresh_runtime =
     ((example_oracle\<lparr>context_handle :=
          \<lparr>box_vectors = [1, 0, 0, 0, 1, 0, 0, 0, 1], positions = [1, 2, 3, 4, 5, 6]\<rparr>\<rparr>,
       \<lparr>warnings = [], allocations = 4\<rparr>),
      Inr (\<lparr>shape = [], elems = [21 / 2]\<rparr>, \<lparr>shape = [1, 2, 3], elems = [2, 4, 6, 0, 0, 0]\<rparr>))"
    by code_simp
  from backward_rule_negated_force [OF h, of 3] h show ?thesis
    by simp
qed

lemma sample_step_evaluates:
  assumes "evaluates eng (kbT self) (model self) ((ctx st)\<lparr>positions := p\<rparr>)"
  shows "sample_step eng uninit self i p st =
           (st\<lparr>ctx := (ctx st)\<lparr>positions := p\<rparr>,
               rt := (rt st)\<lparr>allocations := Suc (Suc (allocations (rt st)))\<rparr>,
               energies_buf := (energies_buf st)[i := sample_energy eng (kbT self) ((ctx st)\<lparr>positions := p\<rparr>)],
               forces_buf := (forces_buf st)[i := sample_force eng (kbT self) (model self) ((ctx st)\<lparr>positions := p\<rparr>)]\<rparr>, None)"
  using assms
  by (auto simp: sample_step_def evaluates_def sample_energy_def sample_force_def try_block_def
      np_empty_def np_empty_scalar_def mask_force_def Let_def split: engine_result.splits)

lemma push_positions: "c\<lparr>positions := p\<rparr> = \<lparr>box_vectors = box_vectors c, positions = p\<rparr>"
  by simp

lemma sample_loop_evaluates:
  assumes "\<forall>i\<in>set is. evaluates eng (kbT self) (model self)
              \<lparr>box_vectors = box_vectors (ctx st), positions = row (n_atoms (model self) * 3) i (elems pos)\<rparr>"
  shows "\<exists>st'. sample_loop eng uninit self pos is st = (st', None) \<and>
           box_vectors (ctx st') = box_vectors (ctx st) \<and>
           warnings (rt st') = warnings (rt st) \<and>
           length (energies_buf st') = length (energies_buf st) \<and>
           length (forces_buf st') = length (forces_buf st) \<and>
           (\<forall>i<length (energies_buf st). energies_buf st' ! i =
              (if i \<in> set is
               then sample_energy eng (kbT self) \<lparr>box_vectors = box_vectors (ctx st),
                      positions = row (n_atoms (model self) * 3) i (elems pos)\<rparr>
               else energies_buf st ! i)) \<and>
           (\<forall>i<length (forces_buf st). forces_buf st' ! i =
              (if i \<in> set is
               then sample_force eng (kbT self) (model self) \<lparr>box_vectors = box_vectors (ctx st),
                      positions = row (n_atoms (model self) * 3) i (elems pos)\<rparr>
               else forces_buf st ! i))"
  using assms
proof (induction "is" arbitrary: st)
  case Nil
  then show ?case by simp
next
  case (Cons i "is")
  let ?w = "n_atoms (model self) * 3"
  let ?c = "\<lambda>k. \<lparr>box_vectors = box_vectors (ctx st), positions = row ?w k (elems pos)\<rparr>"
  let ?st1 = "st\<lparr>ctx := ?c i,
               rt := (rt st)\<lparr>allocations := Suc (Suc (allocations (rt st)))\<rparr>,
               energies_buf := (energies_buf st)[i := sample_energy eng (kbT self) (?c i)],
               forces_buf := (forces_buf st)[i := sample_force eng (kbT self) (model self) (?c i)]\<rparr>"
  from Cons.prems have ev: "evaluates eng (kbT self) (model self) ((ctx st)\<lparr>positions := row ?w i (elems pos)\<rparr>)"
    by (simp add: push_positions)
  have step: "sample_step eng uninit self i (row ?w i (elems pos)) st = (?st1, None)"
    using sample_step_evaluates [OF ev, of uninit i] by (simp add: push_positions)
  have "\<forall>k\<in>set is. evaluates eng (kbT self) (model self)
          \<lparr>box_vectors = box_vectors (ctx ?st1), positions = row ?w k (elems pos)\<rparr>"
    using Cons.prems by simp
  from Cons.IH [OF this] obtain st'
    where loop: "sample_loop eng uninit self pos is ?st1 = (st', None)"
      and bv: "box_vectors (ctx st') = box_vectors (ctx ?st1)"
      and w: "warnings (rt st') = warnings (rt ?st1)"
      and le: "length (energies_buf st') = length (energies_buf ?st1)"
      and lf: "length (forces_buf st') = length (forces_buf ?st1)"
      and e: "\<forall>k<length (energies_buf ?st1). energies_buf st' ! k =
                (if k \<in> set is then sample_energy eng (kbT self)
                   \<lparr>box_vectors = box_vectors (ctx ?st1), positions = row ?w k (elems pos)\<rparr>
                 else energies_buf ?st1 ! k)"
      and f: "\<forall>k<length (forces_buf ?st1). forces_buf st' ! k =
                (if k \<in> set is then sample_force eng (kbT self) (model self)
                   \<lparr>box_vectors = box_vectors (ctx ?st1), positions = row ?w k (elems pos)\<rparr>
                 else forces_buf ?st1 ! k)"
    by blast
  have "sample_loop eng uninit self pos (i # is) st = (st', None)"
    using step loop by simp
  moreover have "\<forall>k<length (energies_buf st). energies_buf st' ! k =
        (if k \<in> set (i # is) then sample_energy eng (kbT self) (?c k) else energies_buf st ! k)"
    using e by (auto simp: nth_list_update)
  moreover have "\<forall>k<length (forces_buf st). forces_buf st' ! k =
        (if k \<in> set (i # is) then sample_force eng (kbT self) (model self) (?c k) else forces_buf st ! k)"
    using f by (auto simp: nth_list_update)
  ultimately show ?case using bv w le lf by simp
qed

lemma compute_energies_and_forces_evaluates:
  fixes self :: OpenMMEnergyModel and pos :: ndarray and box :: "ndarray option"
  defines "n \<equiv> n_atoms (model self)"
      and "b \<equiv> length (elems pos) div (n_atoms (model self) * 3)"
      and "bv \<equiv> box_in_force self box"
  assumes n: "0 < n_atoms (model self)"
      and d: "length (elems pos) mod (n_atoms (model self) * 3) = 0"
      and bx: "case box of None \<Rightarrow> True | Some a \<Rightarrow> shape a = [3, 3]"
      and m: "shape (vs_mask (model self)) = [n_atoms (model self), 3]"
      and ev: "\<forall>i<b. evaluates eng (kbT self) (model self)
                 \<lparr>box_vectors = bv, positions = row (n * 3) i (elems pos)\<rparr>"
  shows "\<exists>self' r'.
           compute_energies_and_forces eng uninit self pos box eh r =
             ((self', r'),
              Inr (\<lparr>shape = [b],
                    elems = map (\<lambda>i. sample_energy eng (kbT self)
                              \<lparr>box_vectors = bv, positions = row (n * 3) i (elems pos)\<rparr>) [0..<b]\<rparr>,
                   \<lparr>shape = [b, n, 3],
                    elems = concat (map (\<lambda>i. sample_force eng (kbT self) (model self)
                              \<lparr>box_vectors = bv, positions = row (n * 3) i (elems pos)\<rparr>) [0..<b])\<rparr>)) \<and>
           kbT self' = kbT self \<and> model self' = model self \<and>
           error_handling self' = error_handling self \<and>
           box_vectors (context_handle self') = bv \<and> warnings r' = warnings r"
proof -
  let ?c = "case box of None \<Rightarrow> context_handle self
            | Some a \<Rightarrow> (context_handle self)\<lparr>box_vectors := elems a\<rparr>"
  let ?self1 = "self\<lparr>context_handle := ?c\<rparr>"
  let ?pos' = "\<lparr>shape = [b, n, 3], elems = elems pos\<rparr>"
  obtain energies0 r1 where e0: "np_empty uninit b r = (energies0, r1)" by force
  obtain forces0 r2 where f0: "np_empty uninit (b * n * 3) r1 = (forces0, r2)" by force
  let ?st0 = "\<lparr>ctx = ?c, rt = r2, energies_buf = energies0,
               forces_buf = map (\<lambda>i. row (n * 3) i forces0) [0..<b]\<rparr>"
  have len0: "length energies0 = b" "warnings r2 = warnings r"
    using e0 f0 by (auto simp: np_empty_def)
  have bvc: "box_vectors ?c = bv"
    by (simp add: bv_def box_in_force_def split: option.splits)
  have rs: "reshape_batch pos n = Inr ?pos'"
    using n d by (simp add: reshape_batch_def n_def b_def)
  have "\<forall>i\<in>set [0..<b]. evaluates eng (kbT ?self1) (model ?self1)
          \<lparr>box_vectors = box_vectors (ctx ?st0),
             positions = row (n_atoms (model ?self1) * 3) i (elems ?pos')\<rparr>"
    using ev bvc by (simp add: n_def)
  from sample_loop_evaluates [OF this, of uninit] obtain st
    where loop: "sample_loop eng uninit ?self1 ?pos' [0..<b] ?st0 = (st, None)"
      and sbv: "box_vectors (ctx st) = bv"
      and sw: "warnings (rt st) = warnings r"
      and le: "length (energies_buf st) = b"
      and lf: "length (forces_buf st) = b"
      and e: "\<forall>i<b. energies_buf st ! i = sample_energy eng (kbT self)
                \<lparr>box_vectors = bv, positions = row (n * 3) i (elems pos)\<rparr>"
      and f: "\<forall>i<b. forces_buf st ! i = sample_force eng (kbT self) (model self)
                \<lparr>box_vectors = bv, positions = row (n * 3) i (elems pos)\<rparr>"
    using bvc len0 by (auto simp: n_def)
  have E: "energies_buf st = map (\<lambda>i. sample_energy eng (kbT self)
             \<lparr>box_vectors = bv, positions = row (n * 3) i (elems pos)\<rparr>) [0..<b]"
    using le e by (intro nth_equalityI) auto
  have F: "forces_buf st = map (\<lambda>i. sample_force eng (kbT self) (model self)
             \<lparr>box_vectors = bv, positions = row (n * 3) i (elems pos)\<rparr>) [0..<b]"
    using lf f by (intro nth_equalityI) auto
  have "compute_energies_and_forces eng uninit self pos box eh r =
          ((?self1\<lparr>context_handle := ctx st\<rparr>, rt st),
           Inr (\<lparr>shape = [b], elems = energies_buf st\<rparr>,
                \<lparr>shape = [b, n, 3], elems = concat (forces_buf st)\<rparr>))"
    using rs e0 f0 bx m loop
    by (simp add: compute_energies_and_forces_def Let_def n_def [symmetric] split: option.splits)
  then show ?thesis
    using E F sbv sw by simp
qed

lemma row_zero_all: "length xs = w \<Longrightarrow> row w 0 xs = xs"
  by (simp add: row_def)

lemma length_concat_uniform:
  "\<forall>x\<in>set xs. length (f x) = w \<Longrightarrow> length (concat (map f xs)) = length xs * w"
  by (induction xs) simp_all

lemma row_concat_uniform:
  assumes "\<forall>x\<in>set xs. length (f x) = w" and "i < length xs"
  shows "row w i (concat (map f xs)) = f (xs ! i)"
  using assms
proof (induction xs arbitrary: i)
  case Nil
  then show ?case by simp
next
  case (Cons x xs)
  show ?case
  proof (cases i)
    case 0
    with Cons.prems show ?thesis by (simp add: row_def)
  next
    case (Suc k)
    with Cons.prems have "row w k (concat (map f xs)) = f (xs ! k)"
      by (intro Cons.IH) auto
    moreover have "drop (w + k * w) (f x @ concat (map f xs)) = drop (k * w) (concat (map f xs))"
      using Cons.prems(1) by simp
    ultimately show ?thesis using Suc by (simp add: row_def)
  qed
qed

lemma bridge_single:
  fixes mdl :: OpenMMEnergyModel and box :: "ndarray option"
  defines "c \<equiv> \<lambda>x. \<lparr>box_vectors = bridge_box mdl box, positions = elems x\<rparr>"
  assumes sh: "shape x = [n_molecules (model mdl), n_sites (model mdl), 3]"
      and wf: "wf_array x"
      and na: "n_atoms (model mdl) = n_molecules (model mdl) * n_sites (model mdl)"
      and n: "0 < n_atoms (model mdl)"
      and m: "shape (vs_mask (model mdl)) = [n_atoms (model mdl), 3]"
      and bx: "case box of None \<Rightarrow> True | Some b \<Rightarrow> shape b = [3]"
      and ev: "evaluates eng (kbT mdl) (model mdl) (c x)"
  shows "\<exists>mdl' r'.
           compute_energy_and_forces eng uninit mdl x box False r =
             ((mdl', r'),
              Inr (\<lparr>shape = [], elems = [sample_energy eng (kbT mdl) (c x)]\<rparr>,
                   \<lparr>shape = shape x, elems = sample_force eng (kbT mdl) (model mdl) (c x)\<rparr>)) \<and>
           kbT mdl' = kbT mdl \<and> model mdl' = model mdl \<and>
           error_handling mdl' = error_handling mdl \<and>
           bridge_box mdl' box = bridge_box mdl box \<and> warnings r' = warnings r"
proof -
  let ?n = "n_atoms (model mdl)"
  let ?box' = "map_option (\<lambda>b. \<lparr>shape = [3, 3], elems = diag (elems b)\<rparr>) box"
  let ?flat = "\<lparr>shape = [1, ?n, 3], elems = elems x\<rparr>"
  have len: "length (elems x) = ?n * 3"
    using sh wf na by (simp add: wf_array_def)
  have rf: "reshape_flat (expand_dims x) = Inr ?flat"
    using len by (simp add: reshape_flat_def expand_dims_def)
  have bif: "box_in_force mdl ?box' = bridge_box mdl box"
    by (simp add: box_in_force_def bridge_box_def split: option.splits)
  have b1: "length (elems ?flat) div (?n * 3) = 1"
    using len n by simp
  have "\<exists>self' r'.
           compute_energies_and_forces eng uninit mdl ?flat ?box' None r =
             ((self', r'),
              Inr (\<lparr>shape = [length (elems ?flat) div (?n * 3)],
                    elems = map (\<lambda>i. sample_energy eng (kbT mdl)
                              \<lparr>box_vectors = box_in_force mdl ?box',
                                 positions = row (?n * 3) i (elems ?flat)\<rparr>)
                              [0..<length (elems ?flat) div (?n * 3)]\<rparr>,
                   \<lparr>shape = [length (elems ?flat) div (?n * 3), ?n, 3],
                    elems = concat (map (\<lambda>i. sample_force eng (kbT mdl) (model mdl)
                              \<lparr>box_vectors = box_in_force mdl ?box',
                                 positions = row (?n * 3) i (elems ?flat)\<rparr>)
                              [0..<length (elems ?flat) div (?n * 3)])\<rparr>)) \<and>
           kbT self' = kbT mdl \<and> model self' = model mdl \<and>
           error_handling self' = error_handling mdl \<and>
           box_vectors (context_handle self') = box_in_force mdl ?box' \<and> warnings r' = warnings r"
  proof (rule compute_energies_and_forces_evaluates)
    show "0 < ?n" by (rule n)
    show "length (elems ?flat) mod (?n * 3) = 0" using len by simp
    show "case ?box' of None \<Rightarrow> True | Some a \<Rightarrow> shape a = [3, 3]"
      by (simp split: option.splits)
    show "shape (vs_mask (model mdl)) = [?n, 3]" by (rule m)
    show "\<forall>i<length (elems ?flat) div (?n * 3).
            evaluates eng (kbT mdl) (model mdl)
              \<lparr>box_vectors = box_in_force mdl ?box', positions = row (?n * 3) i (elems ?flat)\<rparr>"
      using ev len n by (simp add: b1 bif c_def row_zero_all)
  qed
  then obtain mdl' r'
    where call: "compute_energies_and_forces eng uninit mdl ?flat ?box' None r =
             ((mdl', r'),
              Inr (\<lparr>shape = [1], elems = [sample_energy eng (kbT mdl) (c x)]\<rparr>,
                   \<lparr>shape = [1, ?n, 3], elems = sample_force eng (kbT mdl) (model mdl) (c x)\<rparr>))"
      and keep: "kbT mdl' = kbT mdl" "model mdl' = model mdl"
        "error_handling mdl' = error_handling mdl"
        "box_vectors (context_handle mdl') = bridge_box mdl box" "warnings r' = warnings r"
    using len n by (auto simp: b1 bif c_def row_zero_all)
  have "compute_energy_and_forces eng uninit mdl x box False r =
          ((mdl', r'),
           Inr (\<lparr>shape = [], elems = [sample_energy eng (kbT mdl) (c x)]\<rparr>,
                \<lparr>shape = shape x, elems = sample_force eng (kbT mdl) (model mdl) (c x)\<rparr>))"
    using sh bx rf call
    by (simp add: compute_energy_and_forces_def Let_def squeeze_def expand_dims_def
        split: option.splits)
  moreover have "bridge_box mdl' box = bridge_box mdl box"
    using keep(4) by (simp add: bridge_box_def split: option.splits)
  ultimately show ?thesis using keep by simp
qed

lemma bridge_batch:
  fixes mdl :: OpenMMEnergyModel and box :: "ndarray option"
  defines "c \<equiv> \<lambda>x. \<lparr>box_vectors = bridge_box mdl box, positions = elems x\<rparr>"
      and "dims \<equiv> [n_molecules (model mdl), n_sites (model mdl), 3]"
  assumes ne: "xs \<noteq> []"
      and sh: "\<forall>x\<in>set xs. shape x = dims \<and> wf_array x"
      and na: "n_atoms (model mdl) = n_molecules (model mdl) * n_sites (model mdl)"
      and n: "0 < n_atoms (model mdl)"
      and m: "shape (vs_mask (model mdl)) = [n_atoms (model mdl), 3]"
      and bx: "case box of None \<Rightarrow> True | Some b \<Rightarrow> shape b = [3]"
      and ev: "\<forall>x\<in>set xs. evaluates eng (kbT mdl) (model mdl) (c x)"
  shows "snd (compute_energy_and_forces eng uninit mdl
                \<lparr>shape = length xs # dims, elems = concat (map elems xs)\<rparr> box True r) =
           Inr (\<lparr>shape = [length xs], elems = map (\<lambda>x. sample_energy eng (kbT mdl) (c x)) xs\<rparr>,
                \<lparr>shape = length xs # dims,
                   elems = concat (map (\<lambda>x. sample_force eng (kbT mdl) (model mdl) (c x)) xs)\<rparr>)"
proof -
  let ?n = "n_atoms (model mdl)"
  let ?N = "length xs"
  let ?pos = "\<lparr>shape = ?N # dims, elems = concat (map elems xs)\<rparr>"
  let ?box' = "map_option (\<lambda>b. \<lparr>shape = [3, 3], elems = diag (elems b)\<rparr>) box"
  let ?flat = "\<lparr>shape = [?N, ?n, 3], elems = concat (map elems xs)\<rparr>"
  have N: "0 < ?N" using ne by simp
  have lens: "\<forall>x\<in>set xs. length (elems x) = ?n * 3"
    using sh na by (simp add: wf_array_def dims_def)
  have len: "length (elems ?pos) = ?N * (?n * 3)"
    using length_concat_uniform [OF lens] by simp
  have len': "length (elems ?pos) = ?n * (?N * 3)"
    using len by (simp add: mult.assoc mult.left_commute)
  have rf: "reshape_flat ?pos = Inr ?flat"
    using N n len' by (simp add: reshape_flat_def)
  have bif: "box_in_force mdl ?box' = bridge_box mdl box"
    by (simp add: box_in_force_def bridge_box_def split: option.splits)
  have b: "length (elems ?flat) div (?n * 3) = ?N"
    using len n by simp
  have rows: "\<And>i. i < ?N \<Longrightarrow> row (?n * 3) i (elems ?flat) = elems (xs ! i)"
    using row_concat_uniform [OF lens] by simp
  have "\<exists>self' r'.
           compute_energies_and_forces eng uninit mdl ?flat ?box' None r =
             ((self', r'),
              Inr (\<lparr>shape = [length (elems ?flat) div (?n * 3)],
                    elems = map (\<lambda>i. sample_energy eng (kbT mdl)
                              \<lparr>box_vectors = box_in_force mdl ?box',
                                 positions = row (?n * 3) i (elems ?flat)\<rparr>)
                              [0..<length (elems ?flat) div (?n * 3)]\<rparr>,
                   \<lparr>shape = [length (elems ?flat) div (?n * 3), ?n, 3],
                    elems = concat (map (\<lambda>i. sample_force eng (kbT mdl) (model mdl)
                              \<lparr>box_vectors = box_in_force mdl ?box',
                                 positions = row (?n * 3) i (elems ?flat)\<rparr>)
                              [0..<length (elems ?flat) div (?n * 3)])\<rparr>)) \<and>
           kbT self' = kbT mdl \<and> model self' = model mdl \<and>
           error_handling self' = error_handling mdl \<and>
           box_vectors (context_handle self') = box_in_force mdl ?box' \<and> warnings r' = warnings r"
  proof (rule compute_energies_and_forces_evaluates)
    show "0 < ?n" by (rule n)
    show "length (elems ?flat) mod (?n * 3) = 0" using len by simp
    show "case ?box' of None \<Rightarrow> True | Some a \<Rightarrow> shape a = [3, 3]"
      by (simp split: option.splits)
    show "shape (vs_mask (model mdl)) = [?n, 3]" by (rule m)
    show "\<forall>i<length (elems ?flat) div (?n * 3).
            evaluates eng (kbT mdl) (model mdl)
              \<lparr>box_vectors = box_in_force mdl ?box', positions = row (?n * 3) i (elems ?flat)\<rparr>"
      unfolding b bif using ev rows by (simp add: c_def)
  qed
  then obtain mdl' r'
    where call: "compute_energies_and_forces eng uninit mdl ?flat ?box' None r =
             ((mdl', r'),
              Inr (\<lparr>shape = [?N],
                    elems = map (\<lambda>i. sample_energy eng (kbT mdl)
                              \<lparr>box_vectors = bridge_box mdl box,
                                 positions = row (?n * 3) i (elems ?flat)\<rparr>) [0..<?N]\<rparr>,
                   \<lparr>shape = [?N, ?n, 3],
                    elems = concat (map (\<lambda>i. sample_force eng (kbT mdl) (model mdl)
                              \<lparr>box_vectors = bridge_box mdl box,
                                 positions = row (?n * 3) i (elems ?flat)\<rparr>) [0..<?N])\<rparr>))"
    unfolding b bif by blast
  have e: "map (\<lambda>i. sample_energy eng (kbT mdl)
              \<lparr>box_vectors = bridge_box mdl box, positions = row (?n * 3) i (elems ?flat)\<rparr>) [0..<?N]
           = map (\<lambda>x. sample_energy eng (kbT mdl) (c x)) xs"
    using rows by (intro nth_equalityI) (simp_all add: c_def)
  have f: "map (\<lambda>i. sample_force eng (kbT mdl) (model mdl)
              \<lparr>box_vectors = bridge_box mdl box, positions = row (?n * 3) i (elems ?flat)\<rparr>) [0..<?N]
           = map (\<lambda>x. sample_force eng (kbT mdl) (model mdl) (c x)) xs"
    using rows by (intro nth_equalityI) (simp_all add: c_def)
  show ?thesis
    using bx rf call unfolding e f
    by (simp add: compute_energy_and_forces_def Let_def dims_def split: option.splits)
qed

lemma evaluate_individually_evaluates:
  fixes mdl :: OpenMMEnergyModel and box :: "ndarray option"
  assumes sh: "\<forall>x\<in>set xs. shape x = [n_molecules (model mdl), n_sites (model mdl), 3] \<and> wf_array x"
      and na: "n_atoms (model mdl) = n_molecules (model mdl) * n_sites (model mdl)"
      and n: "0 < n_atoms (model mdl)"
      and m: "shape (vs_mask (model mdl)) = [n_atoms (model mdl), 3]"
      and bx: "case box of None \<Rightarrow> True | Some b \<Rightarrow> shape b = [3]"
      and ev: "\<forall>x\<in>set xs. evaluates eng (kbT mdl) (model mdl)
                 \<lparr>box_vectors = bridge_box mdl box, positions = elems x\<rparr>"
  shows "snd (evaluate_individually eng uninit mdl box xs r) =
           Inr (map (\<lambda>x. \<lparr>shape = [], elems = [sample_energy eng (kbT mdl)
                            \<lparr>box_vectors = bridge_box mdl box, positions = elems x\<rparr>]\<rparr>) xs,
                map (\<lambda>x. \<lparr>shape = shape x, elems = sample_force eng (kbT mdl) (model mdl)
                            \<lparr>box_vectors = bridge_box mdl box, positions = elems x\<rparr>\<rparr>) xs)"
  using assms
proof (induction xs arbitrary: mdl r)
  case Nil
  then show ?case by simp
next
  case (Cons x xs)
  let ?c = "\<lambda>x. \<lparr>box_vectors = bridge_box mdl box, positions = elems x\<rparr>"
  from Cons.prems obtain mdl' r'
    where call: "compute_energy_and_forces eng uninit mdl x box False r =
             ((mdl', r'),
              Inr (\<lparr>shape = [], elems = [sample_energy eng (kbT mdl) (?c x)]\<rparr>,
                   \<lparr>shape = shape x, elems = sample_force eng (kbT mdl) (model mdl) (?c x)\<rparr>))"
      and keep: "kbT mdl' = kbT mdl" "model mdl' = model mdl"
        "bridge_box mdl' box = bridge_box mdl box"
    using bridge_single [of x mdl box eng uninit r] by auto
  have "snd (evaluate_individually eng uninit mdl' box xs r') =
           Inr (map (\<lambda>x. \<lparr>shape = [], elems = [sample_energy eng (kbT mdl')
                            \<lparr>box_vectors = bridge_box mdl' box, positions = elems x\<rparr>]\<rparr>) xs,
                map (\<lambda>x. \<lparr>shape = shape x, elems = sample_force eng (kbT mdl') (model mdl')
                            \<lparr>box_vectors = bridge_box mdl' box, positions = elems x\<rparr>\<rparr>) xs)"
    using Cons.prems by (intro Cons.IH) (simp_all add: keep)
  then obtain s where "evaluate_individually eng uninit mdl' box xs r' =
           (s, Inr (map (\<lambda>x. \<lparr>shape = [], elems = [sample_energy eng (kbT mdl')
                            \<lparr>box_vectors = bridge_box mdl' box, positions = elems x\<rparr>]\<rparr>) xs,
                map (\<lambda>x. \<lparr>shape = shape x, elems = sample_force eng (kbT mdl') (model mdl')
                            \<lparr>box_vectors = bridge_box mdl' box, positions = elems x\<rparr>\<rparr>) xs))"
    by (cases "evaluate_individually eng uninit mdl' box xs r'") auto
  then show ?case
    using call by (simp add: keep)
qed

lemma stack_uniform:
  assumes "xs \<noteq> []" and "\<forall>x\<in>set xs. shape x = d"
  shows "stack xs = Inr \<lparr>shape = length xs # d, elems = concat (map elems xs)\<rparr>"
  using assms by (cases xs) (auto simp: stack_def list_all_iff)

lemma stack_Inr:
  assumes "stack xs = Inr a"
  shows "xs \<noteq> [] \<and> a = \<lparr>shape = length xs # shape (hd xs), elems = concat (map elems xs)\<rparr>"
  using assms by (cases xs) (auto simp: stack_def split: if_splits)

text \<open>
  C8.  Let a batch be the stack of configurations of the shape of the system, each of
  which evaluates in the box in force.  Then each configuration evaluated on its own
  through the bridge gives an energy and a force array, the batch evaluated by one call
  through the bridge gives its arrays too, and these are the stack of the energies and
  the stack of the force arrays, in the order of the batch.
\<close>

theorem batch_equals_individual:
  fixes mdl :: OpenMMEnergyModel and box :: "ndarray option"
  assumes st: "stack xs = Inr batch"
      and sh: "\<forall>x\<in>set xs. shape x = [n_molecules (model mdl), n_sites (model mdl), 3] \<and> wf_array x"
      and na: "n_atoms (model mdl) = n_molecules (model mdl) * n_sites (model mdl)"
      and n: "0 < n_atoms (model mdl)"
      and m: "shape (vs_mask (model mdl)) = [n_atoms (model mdl), 3]"
      and bx: "case box of None \<Rightarrow> True | Some b \<Rightarrow> shape b = [3]"
      and ev: "\<forall>x\<in>set xs. evaluates eng (kbT mdl) (model mdl)
                 \<lparr>box_vectors = bridge_box mdl box, positions = elems x\<rparr>"
  shows "\<exists>es fs E F.
           snd (evaluate_individually eng uninit mdl box xs r) = Inr (es, fs) \<and>
           stack es = Inr E \<and> stack fs = Inr F \<and>
           snd (compute_energy_and_forces eng uninit mdl batch box True r) = Inr (E, F)"
proof -
  let ?dims = "[n_molecules (model mdl), n_sites (model mdl), 3]"
  let ?c = "\<lambda>x. \<lparr>box_vectors = bridge_box mdl box, positions = elems x\<rparr>"
  let ?es = "map (\<lambda>x. \<lparr>shape = [], elems = [sample_energy eng (kbT mdl) (?c x)]\<rparr>) xs"
  let ?fs = "map (\<lambda>x. \<lparr>shape = shape x, elems = sample_force eng (kbT mdl) (model mdl) (?c x)\<rparr>) xs"
  from stack_Inr [OF st] sh have ne: "xs \<noteq> []"
    and batch: "batch = \<lparr>shape = length xs # ?dims, elems = concat (map elems xs)\<rparr>"
    by auto
  have ind: "snd (evaluate_individually eng uninit mdl box xs r) = Inr (?es, ?fs)"
    by (rule evaluate_individually_evaluates [OF sh na n m bx ev])
  have "stack ?es = Inr \<lparr>shape = length ?es # [], elems = concat (map elems ?es)\<rparr>"
    using ne by (intro stack_uniform) auto
  then have E: "stack ?es =
      Inr \<lparr>shape = [length xs], elems = map (\<lambda>x. sample_energy eng (kbT mdl) (?c x)) xs\<rparr>"
    by (simp add: comp_def)
  have "stack ?fs = Inr \<lparr>shape = length ?fs # ?dims, elems = concat (map elems ?fs)\<rparr>"
    using ne sh by (intro stack_uniform) auto
  then have F: "stack ?fs =
      Inr \<lparr>shape = length xs # ?dims,
           elems = concat (map (\<lambda>x. sample_force eng (kbT mdl) (model mdl) (?c x)) xs)\<rparr>"
    by (simp add: comp_def)
  have "snd (compute_energy_and_forces eng uninit mdl batch box True r) =
          Inr (\<lparr>shape = [length xs], elems = map (\<lambda>x. sample_energy eng (kbT mdl) (?c x)) xs\<rparr>,
               \<lparr>shape = length xs # ?dims,
                  elems = concat (map (\<lambda>x. sample_force eng (kbT mdl) (model mdl) (?c x)) xs)\<rparr>)"
    unfolding batch by (rule bridge_batch [OF ne sh na n m bx ev])
  with ind E F show ?thesis by blast
qed

theorem batch_equals_individual_witness:
  "\<exists>es fs E F.
     snd (evaluate_individually example_engine example_uninit example_oracle
            (Some \<lparr>shape = [3], elems = [2, 2, 2]\<rparr>) [good_config, other_config] fresh_runtime) =
       Inr (es, fs) \<and>
     stack es = Inr E \<and> stack fs = Inr F \<and>
     snd (compute_energy_and_forces example_engine example_uninit example_oracle
            \<lparr>shape = [2, 1, 2, 3], elems = [1, 2, 3, 4, 5, 6, 0, 1, 0, 1, 0, 1]\<rparr>
            (Some \<lparr>shape = [3], elems = [2, 2, 2]\<rparr>) True fresh_runtime) = Inr (E, F)"
proof (rule batch_equals_individual)
  show "stack [good_config, other_config] =
          Inr \<lparr>shape = [2, 1, 2, 3], elems = [1, 2, 3, 4, 5, 6, 0, 1, 0, 1, 0, 1]\<rparr>"
    by code_simp
  show "\<forall>x\<in>set [good_config, other_config].
          shape x = [n_molecules (model example_oracle), n_sites (model example_oracle), 3] \<and>
          wf_array x"
    by code_simp
  show "n_atoms (model example_oracle) =
          n_molecules (model example_oracle) * n_sites (model example_oracle)"
    by code_simp
  show "0 < n_atoms (model example_oracle)"
    by code_simp
  show "shape (vs_mask (model example_oracle)) = [n_atoms (model example_oracle), 3]"
    by code_simp
  show "case Some \<lparr>shape = [3], elems = [2, 2, 2]\<rparr> of None \<Rightarrow> True | Some b \<Rightarrow> shape b = [3]"
    by simp
  show "\<forall>x\<in>set [good_config, other_config].
          evaluates example_engine (kbT example_oracle) (model example_oracle)
            \<lparr>box_vectors = bridge_box example_oracle (Some \<lparr>shape = [3], elems = [2, 2, 2]\<rparr>),
               positions = elems x\<rparr>"
    by code_simp
qed

section \<open>The cutoff potential\<close>

lemma sum_squares_scale: "sum_squares (map (\<lambda>x. x / c * t) xs) = (t / c)\<^sup>2 * sum_squares xs"
  by (induction xs) (simp_all add: sum_squares_def power_divide algebra_simps)

lemma sum_squares_nonneg: "0 \<le> sum_squares xs"
  by (induction xs) (simp_all add: sum_squares_def)

lemma l2norm_scale:
  assumes "0 < c"
  shows "l2norm (map (\<lambda>x. x / c * t) xs) = \<bar>t\<bar> * l2norm xs / c"
  unfolding l2norm_def sum_squares_scale
  using assms by (simp add: real_sqrt_mult real_sqrt_abs abs_divide)

lemma l2norm_less_gnorm: "l2norm xs < sqrt (1 / 10 ^ 12 + sum_squares xs)"
  by (simp add: l2norm_def)

lemma sum_squares_same: "sum_squares (map2 (-) xs xs) = 0"
  by (induction xs) (simp_all add: sum_squares_def)

lemma rsqrt_tiny: "1 / 2000000 < sqrt (1 / 10 ^ 12 :: real)"
  by (rule real_less_rsqrt) (simp add: power2_eq_square)

lemma cutoff_eval_bwd_one: "cutoff_eval_bwd res 1 = res"
  by (simp add: cutoff_eval_bwd_def)

text \<open>
  C3, as stated: where the norm of the gradient of the wrapped potential exceeds the
  threshold, the returned gradient has norm exactly the threshold.  It fails for the
  potential \<open>2 * sum x\<close> at the reference point itself with threshold one: the gradient
  \<open>[2]\<close> has norm two, and the returned gradient is \<open>[0]\<close>, of norm zero.
\<close>

theorem cutoff_gradient_norm_counterexample:
  "snd (linear_potential \<lparr>shape = [1], elems = [0]\<rparr> ()) =
     Inr (0, \<lparr>shape = [1], elems = [2]\<rparr>) \<and>
   1 < l2norm [2] \<and>
   snd (cutoff_value_and_grad linear_potential \<lparr>shape = [1], elems = [0]\<rparr> 1
          \<lparr>shape = [1], elems = [0]\<rparr> ()) = Inr (0, \<lparr>shape = [1], elems = [0]\<rparr>) \<and>
   l2norm [0] \<noteq> 1"
  by (simp add: cutoff_value_and_grad_def cutoff_eval_fwd_def cutoff_blend_def
      linear_potential_def approximate_potential_def subtract_def sum_squares_def
      cutoff_eval_bwd_def l2norm_def Let_def)

text \<open>
  C3, amended: for an input of the shape of the reference, where the norm of the gradient
  of the wrapped potential exceeds the threshold \<open>t\<close>, the returned value is the surrogate
  \<open>0.5 * sum (x - x0)^2\<close> and the returned gradient is \<open>(x - x0) / sqrt (1e-12 + |x - x0|^2) * t\<close>,
  of the shape of the input; at the reference itself this gradient has norm zero.
\<close>

theorem cutoff_gradient_above_threshold:
  fixes inp reference :: ndarray
  defines "d \<equiv> map2 (-) (elems inp) (elems reference)"
  assumes p: "potential inp s = (s', Inr (original, grad))"
      and sh: "shape inp = shape reference"
      and gt: "threshold < l2norm (elems grad)"
  shows "\<exists>g. cutoff_value_and_grad potential reference threshold inp s =
               (s', Inr (0.5 * sum_squares d, g)) \<and>
             shape g = shape inp \<and>
             elems g = map (\<lambda>x. x / sqrt (1 / 10 ^ 12 + sum_squares d) * threshold) d \<and>
             (elems inp = elems reference \<longrightarrow> l2norm (elems g) = 0)"
proof -
  let ?G = "sqrt (1 / 10 ^ 12 + sum_squares d)"
  let ?g = "\<lparr>shape = shape inp, elems = map (\<lambda>x. x / ?G * threshold) d\<rparr>"
  have "threshold < sqrt (1 / 10 ^ 12 + sum_squares (elems grad))"
    using gt l2norm_less_gnorm [of "elems grad"] by simp
  then have call: "cutoff_value_and_grad potential reference threshold inp s =
      (s', Inr (0.5 * sum_squares d, ?g))"
    using p sh
    by (simp add: cutoff_value_and_grad_def cutoff_eval_fwd_def cutoff_blend_def
        approximate_potential_def subtract_def cutoff_eval_bwd_def Let_def d_def comp_def)
  have "l2norm (elems ?g) = 0" if "elems inp = elems reference"
  proof -
    from that have "sum_squares d = 0"
      by (simp add: d_def sum_squares_same)
    then have "sum_squares (map (\<lambda>x. x / ?G * threshold) d) = 0"
      unfolding sum_squares_scale by simp
    then show ?thesis
      by (simp add: l2norm_def)
  qed
  with call show ?thesis
    by (intro exI [of _ ?g]) auto
qed

theorem cutoff_gradient_above_threshold_witness:
  "\<exists>g. cutoff_value_and_grad linear_potential \<lparr>shape = [1], elems = [0]\<rparr> 1
          \<lparr>shape = [1], elems = [0]\<rparr> () =
            ((), Inr (0.5 * sum_squares (map2 (-) [0] [0]), g)) \<and>
        shape g = [1] \<and>
        elems g = map (\<lambda>x. x / sqrt (1 / 10 ^ 12 + sum_squares (map2 (-) [0] [0])) * 1)
                    (map2 (-) [0] [0]) \<and>
        l2norm (elems g) = 0"
proof -
  have p: "linear_potential \<lparr>shape = [1], elems = [0]\<rparr> () =
      ((), Inr (0, \<lparr>shape = [1], elems = [2]\<rparr>))"
    by (simp add: linear_potential_def)
  have sh: "shape \<lparr>shape = [1], elems = [0 :: real]\<rparr> = shape \<lparr>shape = [1], elems = [0 :: real]\<rparr>"
    by simp
  have gt: "1 < l2norm (elems \<lparr>shape = [1], elems = [2 :: real]\<rparr>)"
    by (simp add: l2norm_def sum_squares_def)
  from cutoff_gradient_above_threshold
         [where potential = linear_potential and reference = "\<lparr>shape = [1], elems = [0]\<rparr>"
            and threshold = 1, OF p sh gt]
  show ?thesis
    by simp
qed

text \<open>
  C4, as stated: where the norm of the gradient of the wrapped potential is at most the
  threshold, value and gradient are those of the wrapped potential.  It fails for the
  constant potential one with threshold \<open>5e-7\<close>: the gradient is zero, yet the norm the
  code compares is \<open>sqrt 1e-12\<close>, above the threshold, and the surrogate's value is
  returned.
\<close>

theorem cutoff_exactness_counterexample:
  "snd (flat_potential \<lparr>shape = [1], elems = [1]\<rparr> ()) =
     Inr (1, \<lparr>shape = [1], elems = [0]\<rparr>) \<and>
   l2norm [0] \<le> 1 / 2000000 \<and>
   snd (cutoff_value_and_grad flat_potential \<lparr>shape = [1], elems = [0]\<rparr> (1 / 2000000)
          \<lparr>shape = [1], elems = [1]\<rparr> ()) \<noteq> Inr (1, \<lparr>shape = [1], elems = [0]\<rparr>)"
  using rsqrt_tiny
  by (simp add: cutoff_value_and_grad_def cutoff_eval_fwd_def cutoff_blend_def
      flat_potential_def approximate_potential_def subtract_def sum_squares_def
      cutoff_eval_bwd_def l2norm_def Let_def)

text \<open>
  C4, amended: for an input of the shape of the reference, where
  \<open>sqrt (1e-12 + |grad P(x)|^2)\<close> is at most the threshold, the cutoff potential returns the
  value and the gradient of the wrapped potential unchanged.
\<close>

theorem cutoff_exact_below_threshold:
  assumes p: "potential inp s = (s', Inr (original, grad))"
      and sh: "shape inp = shape reference"
      and le: "sqrt (1 / 10 ^ 12 + sum_squares (elems grad)) \<le> threshold"
  shows "cutoff_value_and_grad potential reference threshold inp s = (s', Inr (original, grad))"
  using assms
  by (simp add: cutoff_value_and_grad_def cutoff_eval_fwd_def cutoff_blend_def
      approximate_potential_def subtract_def cutoff_eval_bwd_one Let_def)

theorem cutoff_exact_below_threshold_witness:
  "cutoff_value_and_grad flat_potential \<lparr>shape = [1], elems = [0]\<rparr> 1
     \<lparr>shape = [1], elems = [1]\<rparr> () = ((), Inr (1, \<lparr>shape = [1], elems = [0]\<rparr>))"
proof -
  have p: "flat_potential \<lparr>shape = [1], elems = [1]\<rparr> () =
      ((), Inr (1, \<lparr>shape = [1], elems = [0]\<rparr>))"
    by (simp add: flat_potential_def)
  have sh: "shape \<lparr>shape = [1], elems = [1 :: real]\<rparr> = shape \<lparr>shape = [1], elems = [0 :: real]\<rparr>"
    by simp
  have le: "sqrt (1 / 10 ^ 12 + sum_squares (elems \<lparr>shape = [1], elems = [0 :: real]\<rparr>)) \<le> 1"
    by (simp add: sum_squares_def)
  from cutoff_exact_below_threshold
         [where potential = flat_potential and reference = "\<lparr>shape = [1], elems = [0]\<rparr>"
            and threshold = 1, OF p sh le]
  show ?thesis .
qed

section \<open>The base density\<close>

lemma negate_negate: "negate (negate a) = a"
  by (simp add: negate_def comp_def)

lemma lse2_commute: "lse2 x y = lse2 y x"
proof -
  have "max y x = max x y" by (rule max.commute)
  then show ?thesis by (simp add: lse2_def add.commute)
qed

lemma logsumexp_pair:
  assumes "length a = length b"
  shows "elems (logsumexp \<lparr>shape = [2, length a], elems = a @ b\<rparr>) =
         map (\<lambda>j. lse2 (a ! j) (b ! j)) [0..<length a]"
proof -
  have u: "[0..<2] = [0, Suc 0]"
    by (simp add: numeral_2_eq_2)
  have r: "row (length a) 0 (a @ b) = a" "row (length a) (Suc 0) (a @ b) = b"
    using assms by (simp_all add: row_def)
  show ?thesis
    by (simp add: logsumexp_def Let_def u r lse2_def)
qed

lemma logsumexp_stack_swap:
  assumes "stack [vector a, vector b] = Inr s"
  shows "\<exists>s'. stack [vector b, vector a] = Inr s' \<and> elems (logsumexp s') = elems (logsumexp s)"
proof -
  from assms have l: "length a = length b" and s: "s = \<lparr>shape = [2, length a], elems = a @ b\<rparr>"
    by (auto simp: stack_def vector_def split: if_splits)
  have "stack [vector b, vector a] = Inr \<lparr>shape = [2, length b], elems = b @ a\<rparr>"
    using l by (simp add: stack_def vector_def)
  moreover have "elems (logsumexp \<lparr>shape = [2, length b], elems = b @ a\<rparr>) =
                 elems (logsumexp \<lparr>shape = [2, length a], elems = a @ b\<rparr>)"
    using l logsumexp_pair [of a b] logsumexp_pair [of b a] lse2_commute by simp
  ultimately show ?thesis using s by simp
qed

lemma stack_swap_fails:
  assumes "stack [vector a, vector b] = Inl e"
  shows "stack [vector b, vector a] = Inl e"
  using assms by (auto simp: stack_def vector_def split: if_splits)

text \<open>
  C7.  For every state, the potential of the base density is the same for the state and
  for the state with its rotations negated: same value, and the same exception should the
  two arrays of log-densities not stack.
\<close>

theorem double_cover_invariance:
  "BaseDensity_potential lib self (s\<lparr>s_rot := negate (s_rot s)\<rparr>) = BaseDensity_potential lib self s"
proof (cases "stack [vector (log_prob lib (rot_model self) (s_rot s)),
                     vector (log_prob lib (rot_model self) (negate (s_rot s)))]")
  case (Inl e)
  from stack_swap_fails [OF this] Inl show ?thesis
    by (simp add: BaseDensity_potential_def negate_negate)
next
  case (Inr st)
  from logsumexp_stack_swap [OF this] Inr show ?thesis
    by (auto simp: BaseDensity_potential_def negate_negate Let_def)
qed

text \<open>
  C9.  For every key, when \<^verbatim>\<open>sample\<close> returns a state and a log-density, the potential
  evaluated on that state is that log-density.
\<close>

theorem sample_log_density_consistent:
  assumes "BaseDensity_sample lib self key = Inr (state, log_density)"
  shows "BaseDensity_potential lib self state = Inr log_density"
  using assms
  by (auto simp: BaseDensity_sample_def Let_def split: sum.splits)

theorem sample_log_density_consistent_witness:
  "\<exists>state log_density.
     BaseDensity_sample example_library example_base 0 = Inr (state, log_density) \<and>
     BaseDensity_potential example_library example_base state = Inr log_density"
proof -
  obtain state log_density
    where h: "BaseDensity_sample example_library example_base 0 = Inr (state, log_density)"
    by (simp add: BaseDensity_sample_def BaseDensity_potential_def example_library_def
        example_base_def shape0_def scale_rows_def sign_def stack_def vector_def negate_def
        Let_def)
  from sample_log_density_consistent [OF h] h show ?thesis
    by blast
qed

section \<open>The target density\<close>

text \<open>
  C10.  Without a dataset the property \<^verbatim>\<open>box\<close> raises the error \<^verbatim>\<open>Data not loaded.\<close>; with
  a dataset whose array of boxes has a first entry, it returns the box whose maximum
  corner is that entry and whose minimum corner is zero.  The density is the same after
  the call in both cases.
\<close>

theorem TargetDensity_box_result:
  "(target_data self = None \<longrightarrow>
      TargetDensity_box self = (self, Inl (ValueError ''Data not loaded.''))) \<and>
   (\<forall>d n ds. target_data self = Some d \<and> shape (data_box d) = n # ds \<and> 0 < n \<longrightarrow>
      TargetDensity_box self =
        (self, Inr \<lparr>box_max = \<lparr>shape = ds, elems = take (prod_list ds) (elems (data_box d))\<rparr>,
                    box_min = zeros [3]\<rparr>))"
  by (auto simp: TargetDensity_box_def index0_def new_SimulationBox_def)

theorem TargetDensity_box_result_witness:
  "TargetDensity_box (example_target None) =
     (example_target None, Inl (ValueError ''Data not loaded.'')) \<and>
   TargetDensity_box (example_target (Some \<lparr>shape = [2, 3], elems = [1, 2, 3, 4, 5, 6]\<rparr>)) =
     (example_target (Some \<lparr>shape = [2, 3], elems = [1, 2, 3, 4, 5, 6]\<rparr>),
      Inr \<lparr>box_max = \<lparr>shape = [3], elems = [1, 2, 3]\<rparr>,
           box_min = \<lparr>shape = [3], elems = [0, 0, 0]\<rparr>\<rparr>)"
proof -
  let ?b = "\<lparr>shape = [2, 3], elems = [1, 2, 3, 4, 5, 6 :: real]\<rparr>"
  have none: "target_data (example_target None) = None"
    by (simp add: example_target_def)
  have some: "target_data (example_target (Some ?b)) = Some (example_data\<lparr>data_box := ?b\<rparr>) \<and>
      shape (data_box (example_data\<lparr>data_box := ?b\<rparr>)) = 2 # [3] \<and> (0 :: nat) < 2"
    by (simp add: example_target_def)
  have z: "zeros [3] = \<lparr>shape = [3], elems = [0, 0, 0]\<rparr>"
    by (simp add: zeros_def numeral_3_eq_3)
  from TargetDensity_box_result [of "example_target None"] none
  have 1: "TargetDensity_box (example_target None) =
      (example_target None, Inl (ValueError ''Data not loaded.''))"
    by blast
  from TargetDensity_box_result [of "example_target (Some ?b)"] some
  have "TargetDensity_box (example_target (Some ?b)) =
      (example_target (Some ?b),
       Inr \<lparr>box_max = \<lparr>shape = [3],
               elems = take (prod_list [3]) (elems (data_box (example_data\<lparr>data_box := ?b\<rparr>)))\<rparr>,
             box_min = zeros [3]\<rparr>)"
    by blast
  then have 2: "TargetDensity_box (example_target (Some ?b)) =
      (example_target (Some ?b),
       Inr \<lparr>box_max = \<lparr>shape = [3], elems = [1, 2, 3]\<rparr>,
            box_min = \<lparr>shape = [3], elems = [0, 0, 0]\<rparr>\<rparr>)"
    by (simp add: z)
  from 1 2 show ?thesis by blast
qed

text \<open>The potential of the target density returns for no input: the size of the box raises,
  or \<^verbatim>\<open>functools.partial\<close> refuses the tuple it is given.\<close>

lemma TargetDensity_potential_never_returns:
  "\<exists>e. TargetDensity_potential eng uninit lib self inp r = ((self, r), Inl e)"
  by (simp add: TargetDensity_potential_def wrap_openmm_model_def functools_partial_def Let_def
      split: sum.splits)

text \<open>
  C2.  The potential of the target density should return the negated sum of the auxiliary
  log-densities plus the bridge energy of the input.  On the example input it raises a
  \<^verbatim>\<open>TypeError\<close> instead, before the oracle is called: \<^verbatim>\<open>wrap_openmm_model\<close> returns a
  tuple of two functions, which is not callable.
\<close>

theorem potential_raises_type_error:
  "TargetDensity_potential example_engine example_uninit example_library (example_target None)
     example_input fresh_runtime =
   ((example_target None, fresh_runtime), Inl (TypeError ''the first argument must be callable''))"
  by (simp add: TargetDensity_potential_def wrap_openmm_model_def functools_partial_def Let_def
      example_input_def size_box_def new_SimulationBox_def zeros_def subtract_def)

end
